theory Spec2Isabelle
  imports Complex_Main
begin

section \<open>Request interval guard\<close>

text \<open>
  The pacing guard is the class \<open>SameSecondRequestGuard\<close> with key prefix
  \<open>request_interval_guard:\<close>. Its state is one timestamp per key in the shared
  store and one in the process-local \<open>MEMORY_CACHE\<close>. Timestamps are the integers
  returned by \<open>Date.now()\<close>; the store holds them as decimal strings, written with
  \<open>toString\<close> and read back with \<open>tonumber\<close>, which is the identity on integers, so
  the model keeps the integers.

  Every command sent to the store is appended to \<open>store_log\<close>, every \<open>sleep\<close> to
  \<open>sleeps\<close>. The clock only moves while the caller sleeps: \<open>sleep ms\<close> advances it by
  \<open>ms\<close> plus the scheduler's overshoot \<open>lag\<close>.
\<close>

datatype store_op =
    OpEval string
  | OpGet string
  | OpSetex string int int

datatype client_status = ClientOk | ClientNone | ClientThrows

record guard_env =
  client :: client_status
  eval_fails :: bool
  get_fails :: bool
  setex_fails :: bool
  lag :: int

record guard_world =
  redis_kv :: "string \<rightharpoonup> int"
  MEMORY_CACHE :: "string \<rightharpoonup> int"
  clock :: int
  store_log :: "store_op list"
  sleeps :: "int list"

record guard_result =
  allowed :: bool
  waitedMs :: int

definition REDIS_KEY_PREFIX :: string where
  "REDIS_KEY_PREFIX = ''request_interval_guard:''"

definition getRedisKey :: "string \<Rightarrow> string \<Rightarrow> string" where
  "getRedisKey accountId accountType = REDIS_KEY_PREFIX @ accountType @ '':'' @ accountId"

text \<open>JavaScript's \<open>%\<close> takes the sign of the dividend; Lua's \<open>%\<close> and
  \<open>Math.floor (a / b)\<close> are HOL's \<open>mod\<close> and \<open>div\<close> on integers.\<close>

definition js_rem :: "int \<Rightarrow> int \<Rightarrow> int" where
  "js_rem a b = sgn a * (\<bar>a\<bar> mod \<bar>b\<bar>)"

definition sleep :: "guard_env \<Rightarrow> int \<Rightarrow> guard_world \<Rightarrow> guard_world" where
  "sleep env ms w = w\<lparr>clock := clock w + ms + lag env, sleeps := sleeps w @ [ms]\<rparr>"

definition log_op :: "store_op \<Rightarrow> guard_world \<Rightarrow> guard_world" where
  "log_op c w = w\<lparr>store_log := store_log w @ [c]\<rparr>"

text \<open>The Lua script of \<open>_checkAndWaitWithRedis\<close>, run by the store as one step on the
  value under \<open>key\<close>: it returns the pair \<open>{waitMs, canExecute}\<close> and the store's new
  content.\<close>

definition luaScript ::
  "(string \<rightharpoonup> int) \<Rightarrow> string \<Rightarrow> int \<Rightarrow> int \<Rightarrow> int \<Rightarrow> (int \<times> int) \<times> (string \<rightharpoonup> int)" where
  "luaScript kv key currentTimeMs minIntervalMs ttl =
     (let admit = ((0, 1), kv(key \<mapsto> currentTimeMs)) in
      case kv key of
        None \<Rightarrow> admit
      | Some lastTimeMs \<Rightarrow>
          (let elapsedMs = currentTimeMs - lastTimeMs in
           if minIntervalMs > 0 then
             (if elapsedMs < minIntervalMs then ((minIntervalMs - elapsedMs, 0), kv) else admit)
           else
             (if currentTimeMs div 1000 = lastTimeMs div 1000
              then ((1000 - currentTimeMs mod 1000, 0), kv) else admit)))"

text \<open>The wait computed by \<open>_checkAndWaitWithMemory\<close> from the cached timestamp
  (\<open>if (lastTimeMs)\<close> is false for a missing entry and for \<open>0\<close>).\<close>

definition memoryWaitMs :: "int option \<Rightarrow> int \<Rightarrow> int \<Rightarrow> int" where
  "memoryWaitMs lastTime currentTimeMs minIntervalMs =
     (case lastTime of
        None \<Rightarrow> 0
      | Some lastTimeMs \<Rightarrow>
          if lastTimeMs = 0 then 0
          else
            (let elapsedMs = currentTimeMs - lastTimeMs in
             if minIntervalMs > 0 then
               (if elapsedMs < minIntervalMs then minIntervalMs - elapsedMs else 0)
             else
               (if currentTimeMs div 1000 = lastTimeMs div 1000
                then 1000 - js_rem currentTimeMs 1000 else 0)))"

definition priv_checkAndWaitWithMemory ::
  "string \<Rightarrow> int \<Rightarrow> int \<Rightarrow> int \<Rightarrow> guard_env \<Rightarrow> guard_world \<Rightarrow> guard_result \<times> guard_world" where
  "priv_checkAndWaitWithMemory redisKey maxWaitMs minIntervalMs startTime env w =
     (let currentTimeMs = clock w;
          waitMs = memoryWaitMs (MEMORY_CACHE w redisKey) currentTimeMs minIntervalMs
      in if waitMs = 0 then
           (\<lparr>allowed = True, waitedMs = 0\<rparr>,
            w\<lparr>MEMORY_CACHE := (MEMORY_CACHE w)(redisKey \<mapsto> currentTimeMs)\<rparr>)
         else if waitMs > maxWaitMs then
           (\<lparr>allowed = False, waitedMs = 0\<rparr>, w)
         else
           (let w1 = sleep env waitMs w;
                actualWaitedMs = clock w1 - startTime
            in (\<lparr>allowed = True, waitedMs = actualWaitedMs\<rparr>,
                w1\<lparr>MEMORY_CACHE := (MEMORY_CACHE w1)(redisKey \<mapsto> clock w1)\<rparr>)))"

text \<open>\<open>client.setex\<close>: a plain write of the value under the key. The flag returned
  is false when the command throws, and then the store is unchanged.\<close>

definition setex :: "guard_env \<Rightarrow> string \<Rightarrow> int \<Rightarrow> int \<Rightarrow> guard_world \<Rightarrow> bool \<times> guard_world" where
  "setex env key ttl v w =
     (let w1 = log_op (OpSetex key ttl v) w in
      if setex_fails env then (False, w1)
      else (True, w1\<lparr>redis_kv := (redis_kv w1)(key \<mapsto> v)\<rparr>))"

definition priv_checkAndWaitWithRedis ::
  "string \<Rightarrow> int \<Rightarrow> int \<Rightarrow> int \<Rightarrow> guard_env \<Rightarrow> guard_world \<Rightarrow> guard_result \<times> guard_world" where
  "priv_checkAndWaitWithRedis redisKey maxWaitMs minIntervalMs startTime env w =
     (let currentTimeMs = clock w;
          ttlSeconds = 5;
          w0 = log_op (OpEval redisKey) w
      in if eval_fails env then
           priv_checkAndWaitWithMemory redisKey maxWaitMs minIntervalMs startTime env w0
         else
           (let (result, kv') = luaScript (redis_kv w0) redisKey currentTimeMs minIntervalMs ttlSeconds;
                waitMs = fst result;
                canExecute = snd result;
                w1 = w0\<lparr>redis_kv := kv'\<rparr>
            in if canExecute = 1 then
                 (\<lparr>allowed = True, waitedMs = 0\<rparr>,
                  w1\<lparr>MEMORY_CACHE := (MEMORY_CACHE w1)(redisKey \<mapsto> currentTimeMs)\<rparr>)
               else if waitMs > maxWaitMs then
                 (\<lparr>allowed = False, waitedMs = 0\<rparr>, w1)
               else
                 (let w2 = sleep env waitMs w1;
                      actualWaitedMs = clock w2 - startTime;
                      newTimeMs = clock w2;
                      w3 = snd (setex env redisKey ttlSeconds newTimeMs w2)
                  in (\<lparr>allowed = True, waitedMs = actualWaitedMs\<rparr>,
                      w3\<lparr>MEMORY_CACHE := (MEMORY_CACHE w3)(redisKey \<mapsto> newTimeMs)\<rparr>))))"

definition checkAndWait ::
  "string \<Rightarrow> string \<Rightarrow> int \<Rightarrow> int \<Rightarrow> guard_env \<Rightarrow> guard_world \<Rightarrow> guard_result \<times> guard_world" where
  "checkAndWait accountId accountType maxWaitMs minIntervalMs env w =
     (let startTime = clock w;
          redisKey = getRedisKey accountId accountType
      in case client env of
           ClientOk \<Rightarrow> priv_checkAndWaitWithRedis redisKey maxWaitMs minIntervalMs startTime env w
         | ClientNone \<Rightarrow> priv_checkAndWaitWithMemory redisKey maxWaitMs minIntervalMs startTime env w
         | ClientThrows \<Rightarrow> priv_checkAndWaitWithMemory redisKey maxWaitMs minIntervalMs startTime env w)"


text \<open>
  The algorithm of the specification, in its words: no prior timestamp, no wait; in
  same-second mode (\<open>minIntervalMs = 0\<close>) a wait of \<open>1000 - (now mod 1000)\<close> when
  \<open>floor (now / 1000) = floor (last / 1000)\<close>; in spacing mode a wait of
  \<open>minIntervalMs - elapsed\<close> when \<open>elapsed < minIntervalMs\<close>. \<open>None\<close> means that
  there is no conflict.
\<close>

definition spec_requiredWait :: "int option \<Rightarrow> int \<Rightarrow> int \<Rightarrow> int option" where
  "spec_requiredWait lastTime now minIntervalMs =
     (case lastTime of
        None \<Rightarrow> None
      | Some l \<Rightarrow>
          if minIntervalMs = 0 then
            (if now div 1000 = l div 1000 then Some (1000 - now mod 1000) else None)
          else
            (if now - l < minIntervalMs then Some (minIntervalMs - (now - l)) else None))"

text \<open>
  The decision of the specification on the required wait, in its words: with no required
  wait the call is admitted at once; a required wait that exceeds \<open>maxWaitMs\<close> fails at
  once with \<open>allowed = false\<close>, \<open>waitedMs = 0\<close> and no sleep; otherwise the caller is
  suspended for the required wait and admitted with the elapsed time, the wait plus
  the scheduler's overshoot. The second component is the list of the sleeps performed.
\<close>

definition spec_checkAndWait :: "int option \<Rightarrow> int \<Rightarrow> int \<Rightarrow> int \<Rightarrow> int \<Rightarrow> guard_result \<times> int list" where
  "spec_checkAndWait lastTime now maxWaitMs minIntervalMs overshoot =
     (case spec_requiredWait lastTime now minIntervalMs of
        None \<Rightarrow> (\<lparr>allowed = True, waitedMs = 0\<rparr>, [])
      | Some requiredWait \<Rightarrow>
          if requiredWait > maxWaitMs then (\<lparr>allowed = False, waitedMs = 0\<rparr>, [])
          else (\<lparr>allowed = True, waitedMs = requiredWait + overshoot\<rparr>, [requiredWait]))"

subsection \<open>The same-second guard\<close>

text \<open>
  The older guard, \<open>utils/sameSecondRequestGuard.js\<close>, with key prefix
  \<open>same_second_guard:\<close>. It stores the second of the last request, reads it with \<open>GET\<close>
  and writes it with \<open>SETEX\<close>; a command that throws sends the call to the memory cache.
\<close>

definition SAME_SECOND_KEY_PREFIX :: string where
  "SAME_SECOND_KEY_PREFIX = ''same_second_guard:''"

definition sameSecond_getRedisKey :: "string \<Rightarrow> string \<Rightarrow> string" where
  "sameSecond_getRedisKey accountId accountType = SAME_SECOND_KEY_PREFIX @ accountType @ '':'' @ accountId"

definition getCurrentSecond :: "guard_world \<Rightarrow> int" where
  "getCurrentSecond w = clock w div 1000"

definition checkAndWaitWithMemory ::
  "string \<Rightarrow> string \<Rightarrow> int \<Rightarrow> int \<Rightarrow> guard_env \<Rightarrow> guard_world \<Rightarrow> guard_result \<times> guard_world" where
  "checkAndWaitWithMemory accountId accountType maxWaitMs startTime env w =
     (let currentSecond = getCurrentSecond w;
          redisKey = sameSecond_getRedisKey accountId accountType
      in if (case MEMORY_CACHE w redisKey of
               None \<Rightarrow> False
             | Some lastRequestSecond \<Rightarrow> lastRequestSecond \<noteq> 0 \<and> lastRequestSecond = currentSecond)
         then
           (let waitMs = 1000 - js_rem (clock w) 1000
            in if waitMs > maxWaitMs then (\<lparr>allowed = False, waitedMs = 0\<rparr>, w)
               else
                 (let w1 = sleep env waitMs w;
                      actualWaitedMs = clock w1 - startTime;
                      newSecond = getCurrentSecond w1
                  in (\<lparr>allowed = True, waitedMs = actualWaitedMs\<rparr>,
                      w1\<lparr>MEMORY_CACHE := (MEMORY_CACHE w1)(redisKey \<mapsto> newSecond)\<rparr>)))
         else
           (\<lparr>allowed = True, waitedMs = 0\<rparr>,
            w\<lparr>MEMORY_CACHE := (MEMORY_CACHE w)(redisKey \<mapsto> currentSecond)\<rparr>))"

definition sameSecond_checkAndWait ::
  "string \<Rightarrow> string \<Rightarrow> int \<Rightarrow> guard_env \<Rightarrow> guard_world \<Rightarrow> guard_result \<times> guard_world" where
  "sameSecond_checkAndWait accountId accountType maxWaitMs env w =
     (let startTime = clock w;
          currentSecond = getCurrentSecond w;
          redisKey = sameSecond_getRedisKey accountId accountType
      in case client env of
           ClientOk \<Rightarrow>
             (let w0 = log_op (OpGet redisKey) w
              in if get_fails env then
                   checkAndWaitWithMemory accountId accountType maxWaitMs startTime env w0
                 else if redis_kv w0 redisKey = Some currentSecond then
                   (let waitMs = 1000 - js_rem (clock w0) 1000
                    in if waitMs > maxWaitMs then (\<lparr>allowed = False, waitedMs = 0\<rparr>, w0)
                       else
                         (let w1 = sleep env waitMs w0;
                              actualWaitedMs = clock w1 - startTime;
                              newSecond = getCurrentSecond w1;
                              written = setex env redisKey 2 newSecond w1
                          in if fst written then
                               (\<lparr>allowed = True, waitedMs = actualWaitedMs\<rparr>,
                                (snd written)\<lparr>MEMORY_CACHE :=
                                   (MEMORY_CACHE (snd written))(redisKey \<mapsto> newSecond)\<rparr>)
                             else checkAndWaitWithMemory accountId accountType maxWaitMs startTime
                                    env (snd written)))
                 else
                   (let written = setex env redisKey 2 currentSecond w0
                    in if fst written then
                         (\<lparr>allowed = True, waitedMs = 0\<rparr>,
                          (snd written)\<lparr>MEMORY_CACHE :=
                             (MEMORY_CACHE (snd written))(redisKey \<mapsto> currentSecond)\<rparr>)
                       else checkAndWaitWithMemory accountId accountType maxWaitMs startTime
                              env (snd written)))
         | ClientNone \<Rightarrow> checkAndWaitWithMemory accountId accountType maxWaitMs startTime env w
         | ClientThrows \<Rightarrow> checkAndWaitWithMemory accountId accountType maxWaitMs startTime env w)"

text \<open>Concrete environments and states for the examples: the store answering, the
  store's script failing, and a state with given contents at a given time.\<close>

definition env_up :: guard_env where
  "env_up = \<lparr>client = ClientOk, eval_fails = False, get_fails = False, setex_fails = False, lag = 0\<rparr>"

definition env_down :: guard_env where
  "env_down = \<lparr>client = ClientOk, eval_fails = True, get_fails = True, setex_fails = True, lag = 0\<rparr>"

definition world_at :: "(string \<rightharpoonup> int) \<Rightarrow> (string \<rightharpoonup> int) \<Rightarrow> int \<Rightarrow> guard_world" where
  "world_at kv cache t = \<lparr>redis_kv = kv, MEMORY_CACHE = cache, clock = t, store_log = [], sleeps = []\<rparr>"

section \<open>Account rate limiter\<close>

text \<open>
  \<open>acquireRateLimit\<close> of \<open>AccountRateLimitService\<close>, on a resolved configuration. The
  store's \<open>acquireAccountRateLimit\<close> is a parameter: \<open>store env n t\<close> is what the
  \<open>n\<close>-th call answers when made at time \<open>t\<close>, an error or the triple
  \<open>acquired\<close>, \<open>currentCount\<close>, \<open>oldestRequestTime\<close>. \<open>random env n\<close> is the value of
  \<open>Math.random()\<close> at the \<open>n\<close>-th call, \<open>uuid env\<close> the identifier \<open>uuidv4()\<close> returns.
\<close>

record rate_cfg =
  enabled :: bool
  windowSeconds :: int
  maxRequests :: int
  queueTimeoutMs :: int
  enableQueueing :: bool

datatype rl_reply =
    StoreError string
  | Reply bool int "int option"

record rl_env =
  store :: "nat \<Rightarrow> int \<Rightarrow> rl_reply"
  random :: "nat \<Rightarrow> real"
  uuid :: string

record acquire_result =
  acquired :: bool
  requestId :: string
  error :: "string option"
  errorMessage :: "string option"
  acq_waitedMs :: "int option"
  skipped :: bool

text \<open>The state of one call: the clock, \<open>retryCount\<close>, the number of calls made to the
  store with the answers they got, and the delays of the timers the call has waited for.
  The clock moves only while the call waits for a timer.\<close>

record rl_state =
  now :: int
  retryCount :: nat
  calls :: nat
  replies :: "rl_reply list"
  slept :: "int list"

definition POLL_INTERVAL_BASE_MS :: real where "POLL_INTERVAL_BASE_MS = 50"
definition POLL_INTERVAL_MAX_MS :: real where "POLL_INTERVAL_MAX_MS = 500"
definition POLL_BACKOFF_FACTOR :: real where "POLL_BACKOFF_FACTOR = 3 / 2"

text \<open>The delay of a timer: \<open>setTimeout\<close> replaces a delay that is not between \<open>1\<close> and
  \<open>2^31 - 1\<close> by \<open>1\<close> and truncates the others to an integer.\<close>

definition TIMEOUT_MAX :: real where "TIMEOUT_MAX = 2147483647"

definition timerDelay :: "real \<Rightarrow> int" where
  "timerDelay ms = (if 1 \<le> ms \<and> ms \<le> TIMEOUT_MAX then \<lfloor>ms\<rfloor> else 1)"

definition rl_sleep :: "real \<Rightarrow> rl_state \<Rightarrow> rl_state" where
  "rl_sleep ms st = st\<lparr>now := now st + timerDelay ms, slept := slept st @ [timerDelay ms]\<rparr>"

definition pollInterval :: "nat \<Rightarrow> real \<Rightarrow> real" where
  "pollInterval retries rnd =
     (let basePollInterval = min (POLL_INTERVAL_BASE_MS * POLL_BACKOFF_FACTOR ^ retries) POLL_INTERVAL_MAX_MS;
          jitter = basePollInterval * (0.85 + rnd * 0.3)
      in min jitter POLL_INTERVAL_MAX_MS)"

text \<open>\<open>waitMs\<close> as the loop computes it: \<open>if (result.oldestRequestTime)\<close> is false for a
  missing value and for \<open>0\<close>.\<close>

definition computeWaitMs :: "rate_cfg \<Rightarrow> int option \<Rightarrow> int \<Rightarrow> int" where
  "computeWaitMs cfg oldestRequestTime t =
     (case oldestRequestTime of
        None \<Rightarrow> 0
      | Some oldest \<Rightarrow>
          if oldest = 0 then 0
          else (let oldestExpiresAt = oldest + windowSeconds cfg * 1000 in max 0 (oldestExpiresAt - t)))"

definition failed :: "string \<Rightarrow> string \<Rightarrow> string option \<Rightarrow> acquire_result" where
  "failed reqId kind msg =
     \<lparr>acquired = False, requestId = reqId, error = Some kind, errorMessage = msg,
      acq_waitedMs = None, skipped = False\<rparr>"

definition called :: "rl_env \<Rightarrow> rl_state \<Rightarrow> rl_state" where
  "called env st =
     st\<lparr>calls := Suc (calls st), replies := replies st @ [store env (calls st) (now st)]\<rparr>"

text \<open>The state after the sleep of one iteration that neither returned nor failed.\<close>

definition wait_step :: "rate_cfg \<Rightarrow> rl_env \<Rightarrow> int \<Rightarrow> int option \<Rightarrow> rl_state \<Rightarrow> rl_state" where
  "wait_step cfg env startTime oldestRequestTime st =
     (let waitMs = computeWaitMs cfg oldestRequestTime (now st);
          remainingTimeout = queueTimeoutMs cfg - (now st - startTime)
      in if waitMs > 0 then rl_sleep (real_of_int (min waitMs remainingTimeout)) (called env st)
         else (rl_sleep (pollInterval (retryCount st) (random env (calls st))) (called env st))
                \<lparr>retryCount := Suc (retryCount st)\<rparr>)"

lemma timerDelay_pos: "1 \<le> timerDelay ms"
  by (simp add: timerDelay_def)

lemma now_wait_step: "now st < now (wait_step cfg env startTime oldestRequestTime st)"
  using timerDelay_pos [of "real_of_int (min (computeWaitMs cfg oldestRequestTime (now st))
      (queueTimeoutMs cfg - (now st - startTime)))"]
    timerDelay_pos [of "pollInterval (retryCount st) (random env (calls st))"]
  by (simp add: wait_step_def rl_sleep_def called_def Let_def)

function acquire_loop ::
  "rate_cfg \<Rightarrow> rl_env \<Rightarrow> string \<Rightarrow> int \<Rightarrow> rl_state \<Rightarrow> acquire_result \<times> rl_state" where
  "acquire_loop cfg env reqId startTime st =
     (if now st - startTime < queueTimeoutMs cfg then
        (case store env (calls st) (now st) of
           StoreError msg \<Rightarrow> (failed reqId ''rate_limit_backend_error'' (Some msg), called env st)
         | Reply acq currentCount oldestRequestTime \<Rightarrow>
             if acq then
               (\<lparr>acquired = True, requestId = reqId, error = None, errorMessage = None,
                 acq_waitedMs = Some (now st - startTime), skipped = False\<rparr>, called env st)
             else if \<not> enableQueueing cfg then
               (failed reqId ''rate_limit_exceeded'' None, called env st)
             else if computeWaitMs cfg oldestRequestTime (now st)
                       > queueTimeoutMs cfg - (now st - startTime) then
               (failed reqId ''queue_timeout'' None, called env st)
             else
               acquire_loop cfg env reqId startTime
                 (wait_step cfg env startTime oldestRequestTime st))
      else (failed reqId ''queue_timeout'' None, st))"
  by pat_completeness auto
termination
  by (relation "measure (\<lambda>(cfg, env, reqId, startTime, st). nat (queueTimeoutMs cfg - (now st - startTime)))")
     (use now_wait_step in \<open>auto simp: less_imp_diff_less intro!: zless_nat_conj [THEN iffD2]\<close>)

definition acquireRateLimit ::
  "rate_cfg \<Rightarrow> rl_env \<Rightarrow> string option \<Rightarrow> int \<Rightarrow> acquire_result \<times> rl_state" where
  "acquireRateLimit cfg env reqIdOpt startClock =
     (let st0 = \<lparr>now = startClock, retryCount = 0, calls = 0, replies = [], slept = []\<rparr>;
          reqId = (case reqIdOpt of None \<Rightarrow> uuid env | Some r \<Rightarrow> if r = [] then uuid env else r)
      in if \<not> enabled cfg then
           (\<lparr>acquired = True, requestId = reqId, error = None, errorMessage = None,
             acq_waitedMs = None, skipped = True\<rparr>, st0)
         else acquire_loop cfg env reqId startClock st0)"

text \<open>Concrete configurations and stores for the examples: a queue of 100 ms; a store
  whose window stays full and gives no oldest timestamp; one whose oldest entry leaves
  the window 50 ms after the first call and which throws at the second call; one whose
  oldest entry leaves the window 200 ms after the call.\<close>

definition cfg_queue :: rate_cfg where
  "cfg_queue = \<lparr>enabled = True, windowSeconds = 60, maxRequests = 20, queueTimeoutMs = 100,
     enableQueueing = True\<rparr>"

definition store_full :: rl_env where
  "store_full = \<lparr>store = (\<lambda>n t. Reply False 21 None), random = (\<lambda>n. 1 / 2), uuid = ''req-1''\<rparr>"

definition store_breaks :: rl_env where
  "store_breaks = \<lparr>store = (\<lambda>n t. if n = 0 then Reply False 21 (Some (t - 59950))
                                    else StoreError ''ECONNRESET''),
     random = (\<lambda>n. 1 / 2), uuid = ''req-1''\<rparr>"

definition store_far :: rl_env where
  "store_far = \<lparr>store = (\<lambda>n t. Reply False 21 (Some (t - 59800))), random = (\<lambda>n. 1 / 2),
     uuid = ''req-1''\<rparr>"

definition state_at :: "int \<Rightarrow> rl_state" where
  "state_at t = \<lparr>now = t, retryCount = 0, calls = 0, replies = [], slept = []\<rparr>"

section \<open>403 circuit breaker\<close>

text \<open>
  \<open>Error403CircuitBreakerService\<close>. The account registry is the store's hashes under the
  keys \<open>accountType:accountId\<close>; a key is present exactly when its hash has a field, and
  an account record has fields that the breaker does not own. The breaker's fields hold
  decimal strings written with \<open>toString\<close> and read with \<open>parseInt\<close>, and the strings
  \<open>'true'\<close> and \<open>'false'\<close>; the model keeps the integers and the booleans. \<open>None\<close> is
  a field that the hash does not have.
\<close>

record account_data =
  error403BreakerState :: "string option"
  error403BreakerOpenAt :: "int option"
  error403BreakerOpenUntil :: "int option"
  error403BreakerEnabled :: "bool option"
  error403Threshold :: "int option"
  error403BreakerDurationMinutes :: "int option"

record breaker_cfg =
  cb_enabled :: bool
  threshold :: int
  cb_windowSeconds :: int
  breakerDurationMinutes :: int
  autoRecovery :: bool

text \<open>What the store does to the commands of one call: the reads of the registry
  (\<open>hgetall\<close>, \<open>exists\<close>) throw or not, each of its two writes (\<open>hdel\<close>, \<open>hmset\<close>) throws
  or not, and so do the commands on the rolling error window.\<close>

record breaker_env =
  hash_read_fails :: bool
  hdel_fails :: bool
  hmset_fails :: bool
  window_fails :: bool

record breaker_world =
  registry :: "string \<rightharpoonup> account_data"
  errors403 :: "string \<rightharpoonup> int list"

definition accountTypes :: "string list" where
  "accountTypes =
     [''claude_account'', ''claude_console_account'', ''gemini_account'', ''bedrock_account'',
      ''azure_openai_account'', ''droid_account'', ''ccr_account'', ''openai_responses_account'']"

definition accountKey :: "string \<Rightarrow> string \<Rightarrow> string" where
  "accountKey accountType accountId = accountType @ '':'' @ accountId"

text \<open>The loop of \<open>_getAccountData\<close> over the account types: the first hash found; a
  read that throws is skipped.\<close>

fun getAccountData_loop ::
  "breaker_env \<Rightarrow> breaker_world \<Rightarrow> string list \<Rightarrow> string \<Rightarrow> account_data option" where
  "getAccountData_loop env w [] accountId = None"
| "getAccountData_loop env w (accountType # rest) accountId =
     (if hash_read_fails env then getAccountData_loop env w rest accountId
      else (case registry w (accountKey accountType accountId) of
              Some accountData \<Rightarrow> Some accountData
            | None \<Rightarrow> getAccountData_loop env w rest accountId))"

definition getAccountData :: "breaker_env \<Rightarrow> breaker_world \<Rightarrow> string \<Rightarrow> account_data option" where
  "getAccountData env w accountId = getAccountData_loop env w accountTypes accountId"

definition getAccountConfig ::
  "breaker_env \<Rightarrow> breaker_world \<Rightarrow> breaker_cfg \<Rightarrow> string \<Rightarrow> breaker_cfg" where
  "getAccountConfig env w globalConfig accountId =
     (case getAccountData env w accountId of
        Some accountData \<Rightarrow>
          \<lparr>cb_enabled = (case error403BreakerEnabled accountData of
                           Some b \<Rightarrow> b | None \<Rightarrow> cb_enabled globalConfig),
           threshold = (case error403Threshold accountData of
                          Some n \<Rightarrow> n | None \<Rightarrow> threshold globalConfig),
           cb_windowSeconds = cb_windowSeconds globalConfig,
           breakerDurationMinutes = (case error403BreakerDurationMinutes accountData of
                                       Some n \<Rightarrow> n | None \<Rightarrow> breakerDurationMinutes globalConfig),
           autoRecovery = autoRecovery globalConfig\<rparr>
      | None \<Rightarrow> globalConfig)"

text \<open>The \<open>updates\<close> object of \<open>_updateAccountBreakerState\<close>: for each of the three
  fields, no entry, the value \<open>null\<close> (the field is deleted) or a value.\<close>

datatype 'a field_update = Absent | Null | Value 'a

record breaker_updates =
  upd_State :: "string field_update"
  upd_OpenAt :: "int field_update"
  upd_OpenUntil :: "int field_update"

text \<open>The record after all the entries of \<open>updates\<close> have been written.\<close>

definition apply_update :: "'a field_update \<Rightarrow> 'a option \<Rightarrow> 'a option" where
  "apply_update u old = (case u of Absent \<Rightarrow> old | Null \<Rightarrow> None | Value v \<Rightarrow> Some v)"

definition write_fields :: "breaker_updates \<Rightarrow> account_data \<Rightarrow> account_data" where
  "write_fields updates accountData =
     accountData\<lparr>error403BreakerState := apply_update (upd_State updates) (error403BreakerState accountData),
                 error403BreakerOpenAt := apply_update (upd_OpenAt updates) (error403BreakerOpenAt accountData),
                 error403BreakerOpenUntil := apply_update (upd_OpenUntil updates) (error403BreakerOpenUntil accountData)\<rparr>"

text \<open>The body of the \<open>if (exists)\<close> branch of \<open>_updateAccountBreakerState\<close>, on one
  record. The entries of \<open>updates\<close> are visited in order: an entry whose value is \<open>null\<close>
  is sent at once as an \<open>hdel\<close>, the others are collected in \<open>updateObj\<close> and sent after
  the loop in one \<open>hmset\<close>, when there is one at least. \<open>delete_fields\<close> is the effect of
  the \<open>hdel\<close> commands and \<open>set_fields\<close> the effect of the \<open>hmset\<close>; \<open>write_hash\<close> returns
  whether the branch reached \<open>return true\<close>, and the record as the commands that did not
  throw have left it.\<close>

definition is_null :: "'a field_update \<Rightarrow> bool" where
  "is_null u = (case u of Null \<Rightarrow> True | _ \<Rightarrow> False)"

definition is_value :: "'a field_update \<Rightarrow> bool" where
  "is_value u = (case u of Value v \<Rightarrow> True | _ \<Rightarrow> False)"

definition has_deletes :: "breaker_updates \<Rightarrow> bool" where
  "has_deletes updates =
     (is_null (upd_State updates) \<or> is_null (upd_OpenAt updates) \<or> is_null (upd_OpenUntil updates))"

definition has_values :: "breaker_updates \<Rightarrow> bool" where
  "has_values updates =
     (is_value (upd_State updates) \<or> is_value (upd_OpenAt updates) \<or> is_value (upd_OpenUntil updates))"

definition apply_delete :: "'a field_update \<Rightarrow> 'a option \<Rightarrow> 'a option" where
  "apply_delete u old = (case u of Null \<Rightarrow> None | _ \<Rightarrow> old)"

definition apply_set :: "'a field_update \<Rightarrow> 'a option \<Rightarrow> 'a option" where
  "apply_set u old = (case u of Value v \<Rightarrow> Some v | _ \<Rightarrow> old)"

definition delete_fields :: "breaker_updates \<Rightarrow> account_data \<Rightarrow> account_data" where
  "delete_fields updates accountData =
     accountData\<lparr>error403BreakerState := apply_delete (upd_State updates) (error403BreakerState accountData),
                 error403BreakerOpenAt := apply_delete (upd_OpenAt updates) (error403BreakerOpenAt accountData),
                 error403BreakerOpenUntil := apply_delete (upd_OpenUntil updates) (error403BreakerOpenUntil accountData)\<rparr>"

definition set_fields :: "breaker_updates \<Rightarrow> account_data \<Rightarrow> account_data" where
  "set_fields updates accountData =
     accountData\<lparr>error403BreakerState := apply_set (upd_State updates) (error403BreakerState accountData),
                 error403BreakerOpenAt := apply_set (upd_OpenAt updates) (error403BreakerOpenAt accountData),
                 error403BreakerOpenUntil := apply_set (upd_OpenUntil updates) (error403BreakerOpenUntil accountData)\<rparr>"

definition write_hash :: "breaker_env \<Rightarrow> breaker_updates \<Rightarrow> account_data \<Rightarrow> bool \<times> account_data" where
  "write_hash env updates accountData =
     (if has_deletes updates \<and> hdel_fails env then (False, accountData)
      else let deleted = delete_fields updates accountData
           in if has_values updates \<and> hmset_fails env then (False, deleted)
              else (True, set_fields updates deleted))"

text \<open>The second loop of \<open>_updateAccountBreakerState\<close>: the first account type whose
  key exists is written and the loop returns true; a command that throws sends the loop
  to the next type, with the store as the commands before it have left it.\<close>

fun update_loop ::
  "breaker_env \<Rightarrow> breaker_world \<Rightarrow> string list \<Rightarrow> string \<Rightarrow> breaker_updates \<Rightarrow> bool \<times> breaker_world" where
  "update_loop env w [] accountId updates = (False, w)"
| "update_loop env w (accountType # rest) accountId updates =
     (if hash_read_fails env then update_loop env w rest accountId updates
      else (case registry w (accountKey accountType accountId) of
              Some accountData \<Rightarrow>
                (let written = write_hash env updates accountData;
                     w' = w\<lparr>registry := (registry w)(accountKey accountType accountId \<mapsto> snd written)\<rparr>
                 in if fst written then (True, w')
                    else update_loop env w' rest accountId updates)
            | None \<Rightarrow> update_loop env w rest accountId updates))"

definition updateAccountBreakerState ::
  "breaker_env \<Rightarrow> breaker_world \<Rightarrow> string \<Rightarrow> breaker_updates \<Rightarrow> bool \<times> breaker_world" where
  "updateAccountBreakerState env w accountId updates =
     (case getAccountData env w accountId of
        None \<Rightarrow> (False, w)
      | Some accountData \<Rightarrow> update_loop env w accountTypes accountId updates)"

text \<open>
  Modelled from the spec: the rolling window of failure timestamps that the store keeps
  for each account, \<open>errors403\<close>, and the three commands of \<open>models/redis\<close> on it,
  \<open>redis.record403Error\<close>, \<open>redis.get403ErrorCount\<close> and \<open>redis.clear403Errors\<close>, whose
  code is missing. A timestamp is in the window of \<open>windowSeconds\<close> at time \<open>t\<close> when it
  is less than \<open>windowSeconds\<close> old.
\<close>

definition in_window :: "int \<Rightarrow> int \<Rightarrow> int \<Rightarrow> bool" where
  "in_window t windowSecs ts = (t - windowSecs * 1000 < ts)"

text \<open>Modelled from the spec: the failure timestamps held for an account, none when
  the store has no window for it.\<close>

definition window_of :: "breaker_world \<Rightarrow> string \<Rightarrow> int list" where
  "window_of w accountId = (case errors403 w accountId of None \<Rightarrow> [] | Some ts \<Rightarrow> ts)"

text \<open>Modelled from the spec: \<open>redis.record403Error\<close> (missing) atomically appends a
  failure timestamp to the account's rolling error window of \<open>windowSeconds\<close> and reads
  back the count. \<open>None\<close> is the command throwing.\<close>

definition redis_record403Error ::
  "breaker_env \<Rightarrow> breaker_world \<Rightarrow> string \<Rightarrow> int \<Rightarrow> int \<Rightarrow> (int \<times> breaker_world) option" where
  "redis_record403Error env w accountId windowSecs t =
     (if window_fails env then None
      else (let ts = filter (in_window t windowSecs) (window_of w accountId) @ [t]
            in Some (int (length ts), w\<lparr>errors403 := (errors403 w)(accountId \<mapsto> ts)\<rparr>)))"

text \<open>Modelled from the spec: \<open>redis.get403ErrorCount\<close> (missing) reads the live error
  count, the number of failure timestamps within the last \<open>windowSeconds\<close>, and changes
  nothing.\<close>

definition redis_get403ErrorCount ::
  "breaker_env \<Rightarrow> breaker_world \<Rightarrow> string \<Rightarrow> int \<Rightarrow> int \<Rightarrow> int option" where
  "redis_get403ErrorCount env w accountId windowSecs t =
     (if window_fails env then None
      else Some (int (length (filter (in_window t windowSecs) (window_of w accountId)))))"


record record403_result =
  triggered :: bool
  errorCount :: int
  res_threshold :: int
  state :: string

text \<open>\<open>openCircuitBreaker\<close> awaits the update and drops the flag it returns; the update
  catches what its commands throw, so the \<open>catch\<close> of \<open>openCircuitBreaker\<close> is never
  entered and the method returns true.\<close>

definition openCircuitBreaker ::
  "breaker_env \<Rightarrow> breaker_world \<Rightarrow> string \<Rightarrow> breaker_cfg \<Rightarrow> int \<Rightarrow> bool \<times> breaker_world" where
  "openCircuitBreaker env w accountId cfg t =
     (let openUntil = t + breakerDurationMinutes cfg * 60 * 1000;
          w1 = snd (updateAccountBreakerState env w accountId
                 \<lparr>upd_State = Value ''open'', upd_OpenAt = Value t, upd_OpenUntil = Value openUntil\<rparr>)
      in (True, w1))"

definition halfOpenCircuitBreaker ::
  "breaker_env \<Rightarrow> breaker_world \<Rightarrow> string \<Rightarrow> bool \<times> breaker_world" where
  "halfOpenCircuitBreaker env w accountId =
     (let w1 = snd (updateAccountBreakerState env w accountId
                 \<lparr>upd_State = Value ''half_open'', upd_OpenAt = Absent, upd_OpenUntil = Absent\<rparr>)
      in (True, w1))"


text \<open>\<open>record403Error\<close>: \<open>None\<close> is the exception of the store's \<open>record403Error\<close>, which
  the method does not catch.\<close>

definition record403Error ::
  "breaker_env \<Rightarrow> breaker_world \<Rightarrow> breaker_cfg \<Rightarrow> string \<Rightarrow> int \<Rightarrow> (record403_result \<times> breaker_world) option" where
  "record403Error env w globalConfig accountId t =
     (let cfg = getAccountConfig env w globalConfig accountId in
      if \<not> cb_enabled cfg then
        Some (\<lparr>triggered = False, errorCount = 0, res_threshold = threshold cfg, state = ''disabled''\<rparr>, w)
      else
        (case redis_record403Error env w accountId (cb_windowSeconds cfg) t of
           None \<Rightarrow> None
         | Some (count, w1) \<Rightarrow>
             if count \<ge> threshold cfg then
               (let w2 = snd (openCircuitBreaker env w1 accountId cfg t)
                in Some (\<lparr>triggered = True, errorCount = count, res_threshold = threshold cfg,
                          state = ''open''\<rparr>, w2))
             else
               Some (\<lparr>triggered = False, errorCount = count, res_threshold = threshold cfg,
                      state = ''closed''\<rparr>, w1)))"

record recover_result =
  recovered :: bool
  rec_state :: string
  remainingMs :: "int option"

text \<open>\<open>x || 'closed'\<close>: a missing or empty state reads as closed.\<close>

definition state_or_closed :: "string option \<Rightarrow> string" where
  "state_or_closed s = (case s of None \<Rightarrow> ''closed'' | Some v \<Rightarrow> if v = [] then ''closed'' else v)"

definition checkAndRecoverBreaker ::
  "breaker_env \<Rightarrow> breaker_world \<Rightarrow> string \<Rightarrow> int \<Rightarrow> recover_result \<times> breaker_world" where
  "checkAndRecoverBreaker env w accountId t =
     (case getAccountData env w accountId of
        None \<Rightarrow> (\<lparr>recovered = False, rec_state = ''closed'', remainingMs = None\<rparr>, w)
      | Some accountData \<Rightarrow>
          if error403BreakerState accountData \<noteq> Some ''open'' then
            (\<lparr>recovered = False, rec_state = state_or_closed (error403BreakerState accountData),
              remainingMs = None\<rparr>, w)
          else
            (let openUntil = (case error403BreakerOpenUntil accountData of None \<Rightarrow> 0 | Some u \<Rightarrow> u)
             in if t \<ge> openUntil then
                  (\<lparr>recovered = True, rec_state = ''half_open'', remainingMs = None\<rparr>,
                   snd (halfOpenCircuitBreaker env w accountId))
                else
                  (\<lparr>recovered = False, rec_state = ''open'', remainingMs = Some (openUntil - t)\<rparr>, w)))"

record breaker_status =
  st_state :: string
  st_errorCount :: int
  st_threshold :: "int option"
  st_enabled :: "bool option"
  st_openAt :: "int option"
  st_openUntil :: "int option"
  st_remainingMs :: "int option"

text \<open>\<open>x ? parseInt(x) : null\<close> followed by \<open>x ? ... : null\<close>: a missing field and \<open>0\<close> both
  give \<open>null\<close>.\<close>

definition truthy_int :: "int option \<Rightarrow> int option" where
  "truthy_int x = (case x of None \<Rightarrow> None | Some n \<Rightarrow> if n = 0 then None else Some n)"

definition getBreakerStatus ::
  "breaker_env \<Rightarrow> breaker_world \<Rightarrow> breaker_cfg \<Rightarrow> string \<Rightarrow> int \<Rightarrow> breaker_status" where
  "getBreakerStatus env w globalConfig accountId t =
     (case redis_get403ErrorCount env w accountId 300 t of
        None \<Rightarrow>
          \<lparr>st_state = ''error'', st_errorCount = 0, st_threshold = None, st_enabled = None,
           st_openAt = None, st_openUntil = None, st_remainingMs = None\<rparr>
      | Some count \<Rightarrow>
          (let cfg = getAccountConfig env w globalConfig accountId in
           case getAccountData env w accountId of
             None \<Rightarrow>
               \<lparr>st_state = ''closed'', st_errorCount = count, st_threshold = Some (threshold cfg),
                st_enabled = Some (cb_enabled cfg), st_openAt = None, st_openUntil = None,
                st_remainingMs = None\<rparr>
           | Some accountData \<Rightarrow>
               (let st = state_or_closed (error403BreakerState accountData);
                    openAt = truthy_int (error403BreakerOpenAt accountData);
                    openUntil = truthy_int (error403BreakerOpenUntil accountData)
                in \<lparr>st_state = st, st_errorCount = count, st_threshold = Some (threshold cfg),
                     st_enabled = Some (cb_enabled cfg), st_openAt = openAt, st_openUntil = openUntil,
                     st_remainingMs =
                       Some (case openUntil of
                               Some u \<Rightarrow> if st = ''open'' then max 0 (u - t) else 0
                             | None \<Rightarrow> 0)\<rparr>)))"

text \<open>Concrete configurations and states for the examples: a store that answers, a
  store whose writes to the registry throw, a store whose \<open>hmset\<close> alone throws, the default configuration, and a registry
  with the accounts \<open>A\<close> and \<open>B\<close>, whose records have no breaker field yet.\<close>

definition breaker_up :: breaker_env where
  "breaker_up = \<lparr>hash_read_fails = False, hdel_fails = False, hmset_fails = False,
     window_fails = False\<rparr>"

definition writes_fail :: breaker_env where
  "writes_fail = \<lparr>hash_read_fails = False, hdel_fails = True, hmset_fails = True,
     window_fails = False\<rparr>"

definition hmset_down :: breaker_env where
  "hmset_down = \<lparr>hash_read_fails = False, hdel_fails = False, hmset_fails = True,
     window_fails = False\<rparr>"

definition cfg_breaker :: breaker_cfg where
  "cfg_breaker = \<lparr>cb_enabled = True, threshold = 3, cb_windowSeconds = 300,
     breakerDurationMinutes = 30, autoRecovery = True\<rparr>"

definition plain_account :: account_data where
  "plain_account = \<lparr>error403BreakerState = None, error403BreakerOpenAt = None,
     error403BreakerOpenUntil = None, error403BreakerEnabled = None, error403Threshold = None,
     error403BreakerDurationMinutes = None\<rparr>"


definition two_accounts :: "account_data \<Rightarrow> (string \<rightharpoonup> int list) \<Rightarrow> breaker_world" where
  "two_accounts dataA errs =
     \<lparr>registry = [''gemini_account:B'' \<mapsto> plain_account, ''claude_account:A'' \<mapsto> dataA],
      errors403 = errs\<rparr>"

section \<open>Properties of the request interval guard\<close>

lemma js_rem_nonneg: "0 \<le> a \<Longrightarrow> js_rem a b = a mod \<bar>b\<bar>"
  by (cases "a = 0") (simp_all add: js_rem_def)

lemma luaScript_spec:
  "0 \<le> mi \<Longrightarrow> fst (luaScript kv key t mi ttl) =
     (case spec_requiredWait (kv key) t mi of None \<Rightarrow> (0, 1) | Some wt \<Rightarrow> (wt, 0))"
  by (auto simp: luaScript_def spec_requiredWait_def Let_def split: option.splits)

lemma luaScript_store:
  "snd (luaScript kv key t mi ttl) =
     (if snd (fst (luaScript kv key t mi ttl)) = 1 then kv(key \<mapsto> t) else kv)"
  by (auto simp: luaScript_def Let_def split: option.splits)

lemma luaScript_wait_nonzero:
  "fst (fst (luaScript kv key t mi ttl)) \<noteq> 0 \<Longrightarrow> snd (fst (luaScript kv key t mi ttl)) \<noteq> 1"
  by (auto simp: luaScript_def Let_def split: option.splits if_splits)

lemma luaScript_None: "kv key = None \<Longrightarrow> luaScript kv key t mi ttl = ((0, 1), kv(key \<mapsto> t))"
  by (simp add: luaScript_def)

lemma memoryWaitMs_spec:
  "0 \<le> mi \<Longrightarrow> 0 \<le> t \<Longrightarrow> lst \<noteq> Some 0 \<Longrightarrow>
   memoryWaitMs lst t mi = (case spec_requiredWait lst t mi of None \<Rightarrow> 0 | Some wt \<Rightarrow> wt)"
  by (auto simp: memoryWaitMs_def spec_requiredWait_def Let_def js_rem_nonneg split: option.splits)

lemma redis_admit:
  assumes "\<not> eval_fails env" and "snd (fst (luaScript (redis_kv w) key (clock w) mi 5)) = 1"
  shows "priv_checkAndWaitWithRedis key mw mi st env w =
     (\<lparr>allowed = True, waitedMs = 0\<rparr>,
      w\<lparr>store_log := store_log w @ [OpEval key],
        redis_kv := (redis_kv w)(key \<mapsto> clock w),
        MEMORY_CACHE := (MEMORY_CACHE w)(key \<mapsto> clock w)\<rparr>)"
  using assms luaScript_store [of "redis_kv w" key "clock w" mi 5]
  by (simp add: priv_checkAndWaitWithRedis_def log_op_def Let_def split_beta)

lemma redis_deny:
  assumes "\<not> eval_fails env" and "snd (fst (luaScript (redis_kv w) key (clock w) mi 5)) \<noteq> 1"
    and "fst (fst (luaScript (redis_kv w) key (clock w) mi 5)) > mw"
  shows "priv_checkAndWaitWithRedis key mw mi st env w =
     (\<lparr>allowed = False, waitedMs = 0\<rparr>, w\<lparr>store_log := store_log w @ [OpEval key]\<rparr>)"
  using assms luaScript_store [of "redis_kv w" key "clock w" mi 5]
  by (simp add: priv_checkAndWaitWithRedis_def log_op_def Let_def split_beta)

lemma redis_wait:
  assumes "\<not> eval_fails env" and "snd (fst (luaScript (redis_kv w) key (clock w) mi 5)) \<noteq> 1"
    and "\<not> fst (fst (luaScript (redis_kv w) key (clock w) mi 5)) > mw"
    and "waitMs = fst (fst (luaScript (redis_kv w) key (clock w) mi 5))"
    and "newTimeMs = clock w + waitMs + lag env"
  shows "priv_checkAndWaitWithRedis key mw mi st env w =
     (\<lparr>allowed = True, waitedMs = newTimeMs - st\<rparr>,
      w\<lparr>clock := newTimeMs, sleeps := sleeps w @ [waitMs],
        store_log := store_log w @ [OpEval key, OpSetex key 5 newTimeMs],
        redis_kv := (if setex_fails env then redis_kv w else (redis_kv w)(key \<mapsto> newTimeMs)),
        MEMORY_CACHE := (MEMORY_CACHE w)(key \<mapsto> newTimeMs)\<rparr>)"
  using assms luaScript_store [of "redis_kv w" key "clock w" mi 5]
  by (simp add: priv_checkAndWaitWithRedis_def log_op_def sleep_def setex_def Let_def split_beta)

lemma memory_admit:
  assumes "memoryWaitMs (MEMORY_CACHE w key) (clock w) mi = 0"
  shows "priv_checkAndWaitWithMemory key mw mi st env w =
     (\<lparr>allowed = True, waitedMs = 0\<rparr>, w\<lparr>MEMORY_CACHE := (MEMORY_CACHE w)(key \<mapsto> clock w)\<rparr>)"
  using assms by (simp add: priv_checkAndWaitWithMemory_def)

lemma memory_deny:
  assumes "memoryWaitMs (MEMORY_CACHE w key) (clock w) mi \<noteq> 0"
    and "memoryWaitMs (MEMORY_CACHE w key) (clock w) mi > mw"
  shows "priv_checkAndWaitWithMemory key mw mi st env w = (\<lparr>allowed = False, waitedMs = 0\<rparr>, w)"
  using assms by (simp add: priv_checkAndWaitWithMemory_def)

lemma memory_wait:
  assumes "memoryWaitMs (MEMORY_CACHE w key) (clock w) mi \<noteq> 0"
    and "\<not> memoryWaitMs (MEMORY_CACHE w key) (clock w) mi > mw"
    and "waitMs = memoryWaitMs (MEMORY_CACHE w key) (clock w) mi"
    and "newTimeMs = clock w + waitMs + lag env"
  shows "priv_checkAndWaitWithMemory key mw mi st env w =
     (\<lparr>allowed = True, waitedMs = newTimeMs - st\<rparr>,
      w\<lparr>clock := newTimeMs, sleeps := sleeps w @ [waitMs],
        MEMORY_CACHE := (MEMORY_CACHE w)(key \<mapsto> newTimeMs)\<rparr>)"
  using assms by (simp add: priv_checkAndWaitWithMemory_def sleep_def Let_def)

lemma redis_fallback:
  "eval_fails env \<Longrightarrow> priv_checkAndWaitWithRedis key mw mi st env w =
     priv_checkAndWaitWithMemory key mw mi st env (log_op (OpEval key) w)"
  by (simp add: priv_checkAndWaitWithRedis_def)

lemma checkAndWait_store:
  "client env = ClientOk \<Longrightarrow> checkAndWait a ty mw mi env w =
     priv_checkAndWaitWithRedis (getRedisKey a ty) mw mi (clock w) env w"
  by (simp add: checkAndWait_def)

lemma checkAndWait_memory:
  "client env \<noteq> ClientOk \<Longrightarrow> checkAndWait a ty mw mi env w =
     priv_checkAndWaitWithMemory (getRedisKey a ty) mw mi (clock w) env w"
  by (cases "client env") (simp_all add: checkAndWait_def)

lemma log_op_fields [simp]:
  "redis_kv (log_op c w) = redis_kv w" "MEMORY_CACHE (log_op c w) = MEMORY_CACHE w"
  "clock (log_op c w) = clock w" "sleeps (log_op c w) = sleeps w"
  "store_log (log_op c w) = store_log w @ [c]"
  by (simp_all add: log_op_def)

text \<open>The memory path, entered directly or after a failed script.\<close>

lemma checkAndWait_fallback:
  assumes "client env \<noteq> ClientOk \<or> eval_fails env"
  shows "\<exists>w0. checkAndWait a ty mw mi env w =
           priv_checkAndWaitWithMemory (getRedisKey a ty) mw mi (clock w) env w0
       \<and> redis_kv w0 = redis_kv w \<and> MEMORY_CACHE w0 = MEMORY_CACHE w
       \<and> clock w0 = clock w \<and> sleeps w0 = sleeps w"
proof (cases "client env = ClientOk")
  case True
  with assms have "eval_fails env" by simp
  with True have "checkAndWait a ty mw mi env w =
      priv_checkAndWaitWithMemory (getRedisKey a ty) mw mi (clock w) env
        (log_op (OpEval (getRedisKey a ty)) w)"
    by (simp add: checkAndWait_store redis_fallback)
  then show ?thesis
    by (intro exI [of _ "log_op (OpEval (getRedisKey a ty)) w"]) simp
next
  case False
  then show ?thesis
    by (intro exI [of _ w]) (simp add: checkAndWait_memory)
qed


lemma spec_requiredWait_pos:
  assumes "0 \<le> mi" and "spec_requiredWait lst t mi = Some wt"
  shows "0 < wt"
  using assms pos_mod_bound [of 1000 t]
  by (auto simp: spec_requiredWait_def split: option.splits if_splits)

text \<open>The two paths against the decision of the specification.\<close>

lemma store_path_spec:
  assumes "0 \<le> mi" and "\<not> eval_fails env"
  shows "fst (priv_checkAndWaitWithRedis key mw mi (clock w) env w)
           = fst (spec_checkAndWait (redis_kv w key) (clock w) mw mi (lag env))"
    and "sleeps (snd (priv_checkAndWaitWithRedis key mw mi (clock w) env w))
           = sleeps w @ snd (spec_checkAndWait (redis_kv w key) (clock w) mw mi (lag env))"
proof -
  note lua = luaScript_spec [OF assms(1), of "redis_kv w" key "clock w" 5]
  show "fst (priv_checkAndWaitWithRedis key mw mi (clock w) env w)
           = fst (spec_checkAndWait (redis_kv w key) (clock w) mw mi (lag env))"
  proof (cases "spec_requiredWait (redis_kv w key) (clock w) mi")
    case None
    with lua assms(2) show ?thesis by (simp add: redis_admit spec_checkAndWait_def)
  next
    case (Some wt)
    with lua assms(2) show ?thesis
      by (cases "wt > mw")
         (simp_all add: redis_deny redis_wait [OF _ _ _ refl refl] spec_checkAndWait_def)
  qed
  show "sleeps (snd (priv_checkAndWaitWithRedis key mw mi (clock w) env w))
           = sleeps w @ snd (spec_checkAndWait (redis_kv w key) (clock w) mw mi (lag env))"
  proof (cases "spec_requiredWait (redis_kv w key) (clock w) mi")
    case None
    with lua assms(2) show ?thesis by (simp add: redis_admit spec_checkAndWait_def)
  next
    case (Some wt)
    with lua assms(2) show ?thesis
      by (cases "wt > mw")
         (simp_all add: redis_deny redis_wait [OF _ _ _ refl refl] spec_checkAndWait_def)
  qed
qed

lemma memory_path_spec:
  assumes "0 \<le> mi" and "0 \<le> clock w" and "MEMORY_CACHE w key \<noteq> Some 0"
  shows "fst (priv_checkAndWaitWithMemory key mw mi (clock w) env w)
           = fst (spec_checkAndWait (MEMORY_CACHE w key) (clock w) mw mi (lag env))"
    and "sleeps (snd (priv_checkAndWaitWithMemory key mw mi (clock w) env w))
           = sleeps w @ snd (spec_checkAndWait (MEMORY_CACHE w key) (clock w) mw mi (lag env))"
proof -
  note mem = memoryWaitMs_spec [OF assms]
  show "fst (priv_checkAndWaitWithMemory key mw mi (clock w) env w)
           = fst (spec_checkAndWait (MEMORY_CACHE w key) (clock w) mw mi (lag env))"
  proof (cases "spec_requiredWait (MEMORY_CACHE w key) (clock w) mi")
    case None
    with mem show ?thesis by (simp add: memory_admit spec_checkAndWait_def)
  next
    case (Some wt)
    with mem spec_requiredWait_pos [OF assms(1) Some] show ?thesis
      by (cases "wt > mw")
         (simp_all add: memory_deny memory_wait [OF _ _ refl refl] spec_checkAndWait_def)
  qed
  show "sleeps (snd (priv_checkAndWaitWithMemory key mw mi (clock w) env w))
           = sleeps w @ snd (spec_checkAndWait (MEMORY_CACHE w key) (clock w) mw mi (lag env))"
  proof (cases "spec_requiredWait (MEMORY_CACHE w key) (clock w) mi")
    case None
    with mem show ?thesis by (simp add: memory_admit spec_checkAndWait_def)
  next
    case (Some wt)
    with mem spec_requiredWait_pos [OF assms(1) Some] show ?thesis
      by (cases "wt > mw")
         (simp_all add: memory_deny memory_wait [OF _ _ refl refl] spec_checkAndWait_def)
  qed
qed

text \<open>
  C7. \<open>checkAndWait\<close> follows the algorithm of the specification. With no prior
  timestamp under the key it admits at once (\<open>allowed = true\<close>, \<open>waitedMs = 0\<close>, no sleep)
  and records the current time, in the store on the store's path and in the memory
  cache on the fallback path. With a prior timestamp, the script answers \<open>{waitMs, 0}\<close>
  exactly when the specification finds a conflict, with the wait the specification
  gives (\<open>1000 - now mod 1000\<close> in same-second mode when both times fall in the same
  second, \<open>minIntervalMs - (now - last)\<close> in spacing mode when
  \<open>now - last < minIntervalMs\<close>), and \<open>{0, 1}\<close> otherwise; the memory path computes the
  same wait, \<open>0\<close> standing for no conflict, for a clock that is not negative and a cached
  timestamp other than \<open>0\<close>. On both paths the result of \<open>checkAndWait\<close> and the sleep
  it performs are those of the specification on that required wait: admitted at once
  without a conflict, refused without a sleep when the wait exceeds \<open>maxWaitMs\<close>, and
  otherwise one sleep of exactly the required wait, then admitted.
\<close>

theorem pacing_required_wait:
  assumes "0 \<le> minIntervalMs"
  shows "(let key = getRedisKey accountId accountType;
              r = checkAndWait accountId accountType maxWaitMs minIntervalMs env w
          in (client env = ClientOk \<and> \<not> eval_fails env \<and> redis_kv w key = None \<longrightarrow>
                fst r = \<lparr>allowed = True, waitedMs = 0\<rparr> \<and> sleeps (snd r) = sleeps w \<and>
                redis_kv (snd r) key = Some (clock w) \<and> MEMORY_CACHE (snd r) key = Some (clock w))
           \<and> ((client env \<noteq> ClientOk \<or> eval_fails env) \<and> MEMORY_CACHE w key = None \<longrightarrow>
                fst r = \<lparr>allowed = True, waitedMs = 0\<rparr> \<and> sleeps (snd r) = sleeps w \<and>
                MEMORY_CACHE (snd r) key = Some (clock w))
           \<and> fst (luaScript (redis_kv w) key (clock w) minIntervalMs 5) =
                (case spec_requiredWait (redis_kv w key) (clock w) minIntervalMs of
                   None \<Rightarrow> (0, 1) | Some waitMs \<Rightarrow> (waitMs, 0))
           \<and> (0 \<le> clock w \<and> MEMORY_CACHE w key \<noteq> Some 0 \<longrightarrow>
                memoryWaitMs (MEMORY_CACHE w key) (clock w) minIntervalMs =
                  (case spec_requiredWait (MEMORY_CACHE w key) (clock w) minIntervalMs of
                     None \<Rightarrow> 0 | Some waitMs \<Rightarrow> waitMs))
           \<and> (client env = ClientOk \<and> \<not> eval_fails env \<longrightarrow>
                fst r = fst (spec_checkAndWait (redis_kv w key) (clock w) maxWaitMs minIntervalMs (lag env)) \<and>
                sleeps (snd r) = sleeps w @
                  snd (spec_checkAndWait (redis_kv w key) (clock w) maxWaitMs minIntervalMs (lag env)))
           \<and> ((client env \<noteq> ClientOk \<or> eval_fails env) \<and> 0 \<le> clock w \<and>
              MEMORY_CACHE w key \<noteq> Some 0 \<longrightarrow>
                fst r = fst (spec_checkAndWait (MEMORY_CACHE w key) (clock w) maxWaitMs minIntervalMs (lag env)) \<and>
                sleeps (snd r) = sleeps w @
                  snd (spec_checkAndWait (MEMORY_CACHE w key) (clock w) maxWaitMs minIntervalMs (lag env))))"
proof -
  define key where "key = getRedisKey accountId accountType"
  define r where "r = checkAndWait accountId accountType maxWaitMs minIntervalMs env w"
  have store: "fst r = \<lparr>allowed = True, waitedMs = 0\<rparr> \<and> sleeps (snd r) = sleeps w \<and>
      redis_kv (snd r) key = Some (clock w) \<and> MEMORY_CACHE (snd r) key = Some (clock w)"
    if "client env = ClientOk" "\<not> eval_fails env" "redis_kv w key = None"
  proof -
    have "snd (fst (luaScript (redis_kv w) key (clock w) minIntervalMs 5)) = 1"
      using that(3) by (simp add: luaScript_None)
    then have "r = (\<lparr>allowed = True, waitedMs = 0\<rparr>,
        w\<lparr>store_log := store_log w @ [OpEval key],
          redis_kv := (redis_kv w)(key \<mapsto> clock w),
          MEMORY_CACHE := (MEMORY_CACHE w)(key \<mapsto> clock w)\<rparr>)"
      unfolding r_def key_def using that(1,2) by (simp add: checkAndWait_store redis_admit)
    then show ?thesis by simp
  qed
  have mem: "fst r = \<lparr>allowed = True, waitedMs = 0\<rparr> \<and> sleeps (snd r) = sleeps w \<and>
      MEMORY_CACHE (snd r) key = Some (clock w)"
    if h1: "client env \<noteq> ClientOk \<or> eval_fails env" and h2: "MEMORY_CACHE w key = None"
  proof -
    obtain w0 where w0: "r = priv_checkAndWaitWithMemory key maxWaitMs minIntervalMs (clock w) env w0"
        "MEMORY_CACHE w0 = MEMORY_CACHE w" "clock w0 = clock w" "sleeps w0 = sleeps w"
      unfolding r_def key_def using checkAndWait_fallback [OF h1] by blast
    have "memoryWaitMs (MEMORY_CACHE w0 key) (clock w0) minIntervalMs = 0"
      using h2 w0(2) by (simp add: memoryWaitMs_def)
    then have "r = (\<lparr>allowed = True, waitedMs = 0\<rparr>,
        w0\<lparr>MEMORY_CACHE := (MEMORY_CACHE w0)(key \<mapsto> clock w0)\<rparr>)"
      unfolding w0(1) by (rule memory_admit)
    then show ?thesis using w0 by simp
  qed
  have lua: "fst (luaScript (redis_kv w) key (clock w) minIntervalMs 5) =
      (case spec_requiredWait (redis_kv w key) (clock w) minIntervalMs of
         None \<Rightarrow> (0, 1) | Some waitMs \<Rightarrow> (waitMs, 0))"
    using assms by (rule luaScript_spec)
  have memw: "memoryWaitMs (MEMORY_CACHE w key) (clock w) minIntervalMs =
      (case spec_requiredWait (MEMORY_CACHE w key) (clock w) minIntervalMs of
         None \<Rightarrow> 0 | Some waitMs \<Rightarrow> waitMs)"
    if "0 \<le> clock w" "MEMORY_CACHE w key \<noteq> Some 0"
    using assms that by (rule memoryWaitMs_spec)
  have store_run: "fst r = fst (spec_checkAndWait (redis_kv w key) (clock w) maxWaitMs minIntervalMs (lag env)) \<and>
      sleeps (snd r) = sleeps w @
        snd (spec_checkAndWait (redis_kv w key) (clock w) maxWaitMs minIntervalMs (lag env))"
    if "client env = ClientOk" "\<not> eval_fails env"
    unfolding r_def key_def using that assms
    by (simp add: checkAndWait_store store_path_spec)
  have mem_run: "fst r = fst (spec_checkAndWait (MEMORY_CACHE w key) (clock w) maxWaitMs minIntervalMs (lag env)) \<and>
      sleeps (snd r) = sleeps w @
        snd (spec_checkAndWait (MEMORY_CACHE w key) (clock w) maxWaitMs minIntervalMs (lag env))"
    if h1: "client env \<noteq> ClientOk \<or> eval_fails env" and h2: "0 \<le> clock w"
      and h3: "MEMORY_CACHE w key \<noteq> Some 0"
  proof -
    obtain w0 where w0: "r = priv_checkAndWaitWithMemory key maxWaitMs minIntervalMs (clock w) env w0"
        "MEMORY_CACHE w0 = MEMORY_CACHE w" "clock w0 = clock w" "sleeps w0 = sleeps w"
      unfolding r_def key_def using checkAndWait_fallback [OF h1] by blast
    have "0 \<le> clock w0" "MEMORY_CACHE w0 key \<noteq> Some 0"
      using h2 h3 w0 by simp_all
    from memory_path_spec [OF assms this, of maxWaitMs env]
    show ?thesis unfolding w0(1) using w0(2,3,4) by simp
  qed
  show ?thesis
    unfolding Let_def key_def [symmetric] r_def [symmetric]
    using store mem lua memw store_run mem_run by blast
qed


theorem pacing_required_wait_witness:
  "fst (checkAndWait ''acc'' ''claude'' 1000 0 env_up (world_at Map.empty Map.empty 1700))
     = \<lparr>allowed = True, waitedMs = 0\<rparr>
   \<and> redis_kv (snd (checkAndWait ''acc'' ''claude'' 1000 0 env_up (world_at Map.empty Map.empty 1700)))
       (getRedisKey ''acc'' ''claude'') = Some 1700
   \<and> fst (checkAndWait ''acc'' ''claude'' 1000 0 env_down (world_at Map.empty Map.empty 1700))
     = \<lparr>allowed = True, waitedMs = 0\<rparr>
   \<and> MEMORY_CACHE (snd (checkAndWait ''acc'' ''claude'' 1000 0 env_down (world_at Map.empty Map.empty 1700)))
       (getRedisKey ''acc'' ''claude'') = Some 1700
   \<and> fst (luaScript [getRedisKey ''acc'' ''claude'' \<mapsto> 1500] (getRedisKey ''acc'' ''claude'') 1700 0 5)
     = (300, 0)
   \<and> memoryWaitMs (Some 1500) 1700 0 = 300
   \<and> fst (luaScript [getRedisKey ''acc'' ''claude'' \<mapsto> 1500] (getRedisKey ''acc'' ''claude'') 1600 200 5)
     = (100, 0)
   \<and> memoryWaitMs (Some 1500) 1600 200 = 100
   \<and> fst (checkAndWait ''acc'' ''claude'' 1000 0 env_up
        (world_at [getRedisKey ''acc'' ''claude'' \<mapsto> 1500] Map.empty 1700))
     = \<lparr>allowed = True, waitedMs = 300\<rparr>
   \<and> sleeps (snd (checkAndWait ''acc'' ''claude'' 1000 0 env_up
        (world_at [getRedisKey ''acc'' ''claude'' \<mapsto> 1500] Map.empty 1700))) = [300]
   \<and> fst (checkAndWait ''acc'' ''claude'' 1000 200 env_down
        (world_at [getRedisKey ''acc'' ''claude'' \<mapsto> 1500] [getRedisKey ''acc'' ''claude'' \<mapsto> 1500] 1600))
     = \<lparr>allowed = True, waitedMs = 100\<rparr>
   \<and> sleeps (snd (checkAndWait ''acc'' ''claude'' 1000 200 env_down
        (world_at [getRedisKey ''acc'' ''claude'' \<mapsto> 1500] [getRedisKey ''acc'' ''claude'' \<mapsto> 1500] 1600)))
     = [100]"
proof -
  note e = pacing_required_wait [where minIntervalMs = 0 and env = env_up and accountId = "''acc''"
      and accountType = "''claude''" and maxWaitMs = 1000
      and w = "world_at [getRedisKey ''acc'' ''claude'' \<mapsto> 1500] Map.empty 1700"]
  have e': "fst (checkAndWait ''acc'' ''claude'' 1000 0 env_up
        (world_at [getRedisKey ''acc'' ''claude'' \<mapsto> 1500] Map.empty 1700))
       = \<lparr>allowed = True, waitedMs = 300\<rparr>
     \<and> sleeps (snd (checkAndWait ''acc'' ''claude'' 1000 0 env_up
        (world_at [getRedisKey ''acc'' ''claude'' \<mapsto> 1500] Map.empty 1700))) = [300]"
    using e by (simp add: Let_def env_up_def world_at_def spec_checkAndWait_def spec_requiredWait_def)
  note a = pacing_required_wait [where minIntervalMs = 0 and env = env_up and accountId = "''acc''"
      and accountType = "''claude''" and maxWaitMs = 1000 and w = "world_at Map.empty Map.empty 1700"]
  note b = pacing_required_wait [where minIntervalMs = 0 and env = env_down and accountId = "''acc''"
      and accountType = "''claude''" and maxWaitMs = 1000 and w = "world_at Map.empty Map.empty 1700"]
  note c = pacing_required_wait [where minIntervalMs = 0 and env = env_down and accountId = "''acc''"
      and accountType = "''claude''" and maxWaitMs = 1000
      and w = "world_at [getRedisKey ''acc'' ''claude'' \<mapsto> 1500] [getRedisKey ''acc'' ''claude'' \<mapsto> 1500] 1700"]
  note d = pacing_required_wait [where minIntervalMs = 200 and env = env_down and accountId = "''acc''"
      and accountType = "''claude''" and maxWaitMs = 1000
      and w = "world_at [getRedisKey ''acc'' ''claude'' \<mapsto> 1500] [getRedisKey ''acc'' ''claude'' \<mapsto> 1500] 1600"]
  have a': "fst (checkAndWait ''acc'' ''claude'' 1000 0 env_up (world_at Map.empty Map.empty 1700))
       = \<lparr>allowed = True, waitedMs = 0\<rparr>
     \<and> redis_kv (snd (checkAndWait ''acc'' ''claude'' 1000 0 env_up (world_at Map.empty Map.empty 1700)))
         (getRedisKey ''acc'' ''claude'') = Some 1700"
    using a by (simp add: Let_def env_up_def world_at_def)
  have b': "fst (checkAndWait ''acc'' ''claude'' 1000 0 env_down (world_at Map.empty Map.empty 1700))
       = \<lparr>allowed = True, waitedMs = 0\<rparr>
     \<and> MEMORY_CACHE (snd (checkAndWait ''acc'' ''claude'' 1000 0 env_down (world_at Map.empty Map.empty 1700)))
         (getRedisKey ''acc'' ''claude'') = Some 1700"
    using b by (simp add: Let_def env_down_def world_at_def)
  have c': "fst (luaScript [getRedisKey ''acc'' ''claude'' \<mapsto> 1500] (getRedisKey ''acc'' ''claude'') 1700 0 5)
       = (300, 0) \<and> memoryWaitMs (Some 1500) 1700 0 = 300"
    using c by (simp add: Let_def world_at_def spec_requiredWait_def)
  have d': "fst (luaScript [getRedisKey ''acc'' ''claude'' \<mapsto> 1500] (getRedisKey ''acc'' ''claude'') 1600 200 5)
       = (100, 0) \<and> memoryWaitMs (Some 1500) 1600 200 = 100"
    using d by (simp add: Let_def world_at_def spec_requiredWait_def)
  have f': "fst (checkAndWait ''acc'' ''claude'' 1000 200 env_down
        (world_at [getRedisKey ''acc'' ''claude'' \<mapsto> 1500] [getRedisKey ''acc'' ''claude'' \<mapsto> 1500] 1600))
       = \<lparr>allowed = True, waitedMs = 100\<rparr>
     \<and> sleeps (snd (checkAndWait ''acc'' ''claude'' 1000 200 env_down
        (world_at [getRedisKey ''acc'' ''claude'' \<mapsto> 1500] [getRedisKey ''acc'' ''claude'' \<mapsto> 1500] 1600)))
       = [100]"
    using d by (simp add: Let_def env_down_def world_at_def spec_checkAndWait_def spec_requiredWait_def)
  show ?thesis using a' b' c' d' e' f' by simp
qed

text \<open>
  C6. When a wait is required and exceeds \<open>maxWaitMs\<close>, \<open>checkAndWait\<close> returns
  \<open>{allowed: false, waitedMs: 0}\<close>; it has not slept, the clock has not moved, and
  neither the stored timestamps nor the memory cache have changed. The required wait
  is the \<open>waitMs\<close> the script returns on the store's path, and the \<open>waitMs\<close> computed
  from the cache on the memory path, taken without a client or after a failed script.
  On both paths \<open>waitMs = 0\<close> says that no wait is required, and that case is excluded;
  it cannot exceed a \<open>maxWaitMs\<close> that is not negative.
\<close>

theorem pacing_timeout_no_mutation:
  "(let key = getRedisKey accountId accountType;
        r = checkAndWait accountId accountType maxWaitMs minIntervalMs env w
    in (client env = ClientOk \<and> \<not> eval_fails env \<and>
        fst (fst (luaScript (redis_kv w) key (clock w) minIntervalMs 5)) \<noteq> 0 \<and>
        fst (fst (luaScript (redis_kv w) key (clock w) minIntervalMs 5)) > maxWaitMs \<longrightarrow>
          fst r = \<lparr>allowed = False, waitedMs = 0\<rparr> \<and> sleeps (snd r) = sleeps w \<and>
          clock (snd r) = clock w \<and> redis_kv (snd r) = redis_kv w \<and>
          MEMORY_CACHE (snd r) = MEMORY_CACHE w)
     \<and> ((client env \<noteq> ClientOk \<or> eval_fails env) \<and>
        memoryWaitMs (MEMORY_CACHE w key) (clock w) minIntervalMs \<noteq> 0 \<and>
        memoryWaitMs (MEMORY_CACHE w key) (clock w) minIntervalMs > maxWaitMs \<longrightarrow>
          fst r = \<lparr>allowed = False, waitedMs = 0\<rparr> \<and> sleeps (snd r) = sleeps w \<and>
          clock (snd r) = clock w \<and> redis_kv (snd r) = redis_kv w \<and>
          MEMORY_CACHE (snd r) = MEMORY_CACHE w))"
proof -
  define key where "key = getRedisKey accountId accountType"
  define r where "r = checkAndWait accountId accountType maxWaitMs minIntervalMs env w"
  have store: "fst r = \<lparr>allowed = False, waitedMs = 0\<rparr> \<and> sleeps (snd r) = sleeps w \<and>
      clock (snd r) = clock w \<and> redis_kv (snd r) = redis_kv w \<and> MEMORY_CACHE (snd r) = MEMORY_CACHE w"
    if "client env = ClientOk" "\<not> eval_fails env"
      "fst (fst (luaScript (redis_kv w) key (clock w) minIntervalMs 5)) \<noteq> 0"
      "fst (fst (luaScript (redis_kv w) key (clock w) minIntervalMs 5)) > maxWaitMs"
  proof -
    have "snd (fst (luaScript (redis_kv w) key (clock w) minIntervalMs 5)) \<noteq> 1"
      using that(3) by (rule luaScript_wait_nonzero)
    then have "r = (\<lparr>allowed = False, waitedMs = 0\<rparr>, w\<lparr>store_log := store_log w @ [OpEval key]\<rparr>)"
      unfolding r_def key_def using that
      by (simp add: checkAndWait_store redis_deny key_def)
    then show ?thesis by simp
  qed
  have mem: "fst r = \<lparr>allowed = False, waitedMs = 0\<rparr> \<and> sleeps (snd r) = sleeps w \<and>
      clock (snd r) = clock w \<and> redis_kv (snd r) = redis_kv w \<and> MEMORY_CACHE (snd r) = MEMORY_CACHE w"
    if h1: "client env \<noteq> ClientOk \<or> eval_fails env"
      and h2: "memoryWaitMs (MEMORY_CACHE w key) (clock w) minIntervalMs \<noteq> 0"
      and h3: "memoryWaitMs (MEMORY_CACHE w key) (clock w) minIntervalMs > maxWaitMs"
  proof -
    obtain w0 where w0: "r = priv_checkAndWaitWithMemory key maxWaitMs minIntervalMs (clock w) env w0"
        "redis_kv w0 = redis_kv w" "MEMORY_CACHE w0 = MEMORY_CACHE w" "clock w0 = clock w"
        "sleeps w0 = sleeps w"
      unfolding r_def key_def using checkAndWait_fallback [OF h1] by blast
    have "r = (\<lparr>allowed = False, waitedMs = 0\<rparr>, w0)"
      unfolding w0(1) using h2 h3 w0(3,4) by (intro memory_deny) simp_all
    then show ?thesis using w0 by simp
  qed
  show ?thesis
    unfolding Let_def key_def [symmetric] r_def [symmetric]
    using store mem by blast
qed


theorem pacing_timeout_no_mutation_witness:
  "checkAndWait ''acc'' ''claude'' 250 0 env_up
       (world_at [getRedisKey ''acc'' ''claude'' \<mapsto> 1500] Map.empty 1700)
     = (\<lparr>allowed = False, waitedMs = 0\<rparr>,
        \<lparr>redis_kv = [getRedisKey ''acc'' ''claude'' \<mapsto> 1500], MEMORY_CACHE = Map.empty, clock = 1700,
          store_log = [OpEval (getRedisKey ''acc'' ''claude'')], sleeps = []\<rparr>)
   \<and> fst (checkAndWait ''acc'' ''claude'' 250 0 env_down
       (world_at Map.empty [getRedisKey ''acc'' ''claude'' \<mapsto> 1500] 1700))
     = \<lparr>allowed = False, waitedMs = 0\<rparr>
   \<and> MEMORY_CACHE (snd (checkAndWait ''acc'' ''claude'' 250 0 env_down
       (world_at Map.empty [getRedisKey ''acc'' ''claude'' \<mapsto> 1500] 1700)))
     = [getRedisKey ''acc'' ''claude'' \<mapsto> 1500]
   \<and> sleeps (snd (checkAndWait ''acc'' ''claude'' 250 0 env_down
       (world_at Map.empty [getRedisKey ''acc'' ''claude'' \<mapsto> 1500] 1700))) = []"
proof -
  note a = pacing_timeout_no_mutation [where minIntervalMs = 0 and env = env_up
      and accountId = "''acc''" and accountType = "''claude''" and maxWaitMs = 250
      and w = "world_at [getRedisKey ''acc'' ''claude'' \<mapsto> 1500] Map.empty 1700"]
  note b = pacing_timeout_no_mutation [where minIntervalMs = 0 and env = env_down
      and accountId = "''acc''" and accountType = "''claude''" and maxWaitMs = 250
      and w = "world_at Map.empty [getRedisKey ''acc'' ''claude'' \<mapsto> 1500] 1700"]
  have l: "luaScript [getRedisKey ''acc'' ''claude'' \<mapsto> 1500] (getRedisKey ''acc'' ''claude'') 1700 0 5
      = ((300, 0), [getRedisKey ''acc'' ''claude'' \<mapsto> 1500])"
    by (simp add: luaScript_def)
  have m: "memoryWaitMs (Some 1500) 1700 0 = 300"
    by (simp add: memoryWaitMs_def js_rem_def)
  have a': "fst (checkAndWait ''acc'' ''claude'' 250 0 env_up
         (world_at [getRedisKey ''acc'' ''claude'' \<mapsto> 1500] Map.empty 1700))
       = \<lparr>allowed = False, waitedMs = 0\<rparr>"
    using a l by (simp add: Let_def env_up_def world_at_def)
  have a'': "snd (checkAndWait ''acc'' ''claude'' 250 0 env_up
         (world_at [getRedisKey ''acc'' ''claude'' \<mapsto> 1500] Map.empty 1700))
       = \<lparr>redis_kv = [getRedisKey ''acc'' ''claude'' \<mapsto> 1500], MEMORY_CACHE = Map.empty, clock = 1700,
          store_log = [OpEval (getRedisKey ''acc'' ''claude'')], sleeps = []\<rparr>"
    using l by (simp add: checkAndWait_store redis_deny env_up_def world_at_def)
  have b': "fst (checkAndWait ''acc'' ''claude'' 250 0 env_down
         (world_at Map.empty [getRedisKey ''acc'' ''claude'' \<mapsto> 1500] 1700))
       = \<lparr>allowed = False, waitedMs = 0\<rparr>
     \<and> MEMORY_CACHE (snd (checkAndWait ''acc'' ''claude'' 250 0 env_down
         (world_at Map.empty [getRedisKey ''acc'' ''claude'' \<mapsto> 1500] 1700)))
       = [getRedisKey ''acc'' ''claude'' \<mapsto> 1500]
     \<and> sleeps (snd (checkAndWait ''acc'' ''claude'' 250 0 env_down
         (world_at Map.empty [getRedisKey ''acc'' ''claude'' \<mapsto> 1500] 1700))) = []"
    using b m by (simp add: Let_def env_down_def world_at_def)
  show ?thesis using a' a'' b' by (simp add: prod_eq_iff)
qed

lemma sameSecond_store_path:
  assumes "client env = ClientOk" and "\<not> get_fails env" and "\<not> setex_fails env"
    and "key = sameSecond_getRedisKey a ty"
    and "waitMs = 1000 - js_rem (clock w) 1000"
    and "newSecond = (clock w + waitMs + lag env) div 1000"
  shows "sameSecond_checkAndWait a ty mw env w =
     (if redis_kv w key = Some (clock w div 1000) then
        (if waitMs > mw then
           (\<lparr>allowed = False, waitedMs = 0\<rparr>, w\<lparr>store_log := store_log w @ [OpGet key]\<rparr>)
         else
           (\<lparr>allowed = True, waitedMs = waitMs + lag env\<rparr>,
            w\<lparr>clock := clock w + waitMs + lag env, sleeps := sleeps w @ [waitMs],
              store_log := store_log w @ [OpGet key, OpSetex key 2 newSecond],
              redis_kv := (redis_kv w)(key \<mapsto> newSecond),
              MEMORY_CACHE := (MEMORY_CACHE w)(key \<mapsto> newSecond)\<rparr>))
      else
        (\<lparr>allowed = True, waitedMs = 0\<rparr>,
         w\<lparr>store_log := store_log w @ [OpGet key, OpSetex key 2 (clock w div 1000)],
           redis_kv := (redis_kv w)(key \<mapsto> clock w div 1000),
           MEMORY_CACHE := (MEMORY_CACHE w)(key \<mapsto> clock w div 1000)\<rparr>))"
  using assms(1,2,3) unfolding assms(4,5,6)
  by (simp add: sameSecond_checkAndWait_def getCurrentSecond_def setex_def sleep_def Let_def)

lemma store_path_run:
  assumes "\<not> eval_fails env"
    and "waitMs = fst (fst (luaScript (redis_kv w) key (clock w) mi 5))"
    and "canExecute = snd (fst (luaScript (redis_kv w) key (clock w) mi 5))"
    and "newTimeMs = clock w + waitMs + lag env"
  shows "priv_checkAndWaitWithRedis key mw mi (clock w) env w =
     (if canExecute = 1 then
        (\<lparr>allowed = True, waitedMs = 0\<rparr>,
         w\<lparr>store_log := store_log w @ [OpEval key],
           redis_kv := (redis_kv w)(key \<mapsto> clock w),
           MEMORY_CACHE := (MEMORY_CACHE w)(key \<mapsto> clock w)\<rparr>)
      else if waitMs > mw then
        (\<lparr>allowed = False, waitedMs = 0\<rparr>, w\<lparr>store_log := store_log w @ [OpEval key]\<rparr>)
      else
        (\<lparr>allowed = True, waitedMs = waitMs + lag env\<rparr>,
         w\<lparr>clock := newTimeMs, sleeps := sleeps w @ [waitMs],
           store_log := store_log w @ [OpEval key, OpSetex key 5 newTimeMs],
           redis_kv := (if setex_fails env then redis_kv w else (redis_kv w)(key \<mapsto> newTimeMs)),
           MEMORY_CACHE := (MEMORY_CACHE w)(key \<mapsto> newTimeMs)\<rparr>))"
proof -
  consider (admit) "canExecute = 1"
    | (deny) "canExecute \<noteq> 1" "waitMs > mw"
    | (wait) "canExecute \<noteq> 1" "\<not> waitMs > mw"
    by blast
  then show ?thesis
  proof cases
    case admit
    then show ?thesis using assms(1) unfolding assms(3) by (simp add: redis_admit)
  next
    case deny
    then show ?thesis using assms(1) unfolding assms(2,3) by (simp add: redis_deny)
  next
    case wait
    then show ?thesis
      using assms(1) unfolding assms(2,3,4) by (simp add: redis_wait [OF _ _ _ refl refl])
  qed
qed

text \<open>
  C1, as the code has it. On the store's path of \<open>checkAndWait\<close> the check, and the write
  of an immediate admission, are one call of the script: the call is admitted with
  \<open>waitedMs = 0\<close> and the script has written the current time. A call whose wait exceeds
  \<open>maxWaitMs\<close> is refused and sends nothing else. A call that waits sends, after the
  sleep, a separate plain \<open>SETEX\<close> (ttl 5) of the time read then, outside the script, and
  is admitted; when that command throws the store keeps the old timestamp and the call
  is admitted all the same. The same-second guard, with a store that answers, reads
  with \<open>GET\<close> and writes with a separate \<open>SETEX\<close> (ttl 2), at once when the stored second
  is not the current one and after the sleep otherwise; a call whose wait exceeds
  \<open>maxWaitMs\<close> is refused after the \<open>GET\<close>.
\<close>

theorem pacing_store_commands:
  "(let key = getRedisKey accountId accountType;
        waitMs = fst (fst (luaScript (redis_kv w) key (clock w) minIntervalMs 5));
        canExecute = snd (fst (luaScript (redis_kv w) key (clock w) minIntervalMs 5));
        newTimeMs = clock w + waitMs + lag env
    in client env = ClientOk \<and> \<not> eval_fails env \<longrightarrow>
         checkAndWait accountId accountType maxWaitMs minIntervalMs env w =
           (if canExecute = 1 then
              (\<lparr>allowed = True, waitedMs = 0\<rparr>,
               w\<lparr>store_log := store_log w @ [OpEval key],
                 redis_kv := (redis_kv w)(key \<mapsto> clock w),
                 MEMORY_CACHE := (MEMORY_CACHE w)(key \<mapsto> clock w)\<rparr>)
            else if waitMs > maxWaitMs then
              (\<lparr>allowed = False, waitedMs = 0\<rparr>, w\<lparr>store_log := store_log w @ [OpEval key]\<rparr>)
            else
              (\<lparr>allowed = True, waitedMs = waitMs + lag env\<rparr>,
               w\<lparr>clock := newTimeMs, sleeps := sleeps w @ [waitMs],
                 store_log := store_log w @ [OpEval key, OpSetex key 5 newTimeMs],
                 redis_kv := (if setex_fails env then redis_kv w
                              else (redis_kv w)(key \<mapsto> newTimeMs)),
                 MEMORY_CACHE := (MEMORY_CACHE w)(key \<mapsto> newTimeMs)\<rparr>)))
   \<and> (let key = sameSecond_getRedisKey accountId accountType;
           waitMs = 1000 - js_rem (clock w) 1000;
           newSecond = (clock w + waitMs + lag env) div 1000
       in client env = ClientOk \<and> \<not> get_fails env \<and> \<not> setex_fails env \<longrightarrow>
            sameSecond_checkAndWait accountId accountType maxWaitMs env w =
              (if redis_kv w key = Some (clock w div 1000) then
                 (if waitMs > maxWaitMs then
                    (\<lparr>allowed = False, waitedMs = 0\<rparr>, w\<lparr>store_log := store_log w @ [OpGet key]\<rparr>)
                  else
                    (\<lparr>allowed = True, waitedMs = waitMs + lag env\<rparr>,
                     w\<lparr>clock := clock w + waitMs + lag env, sleeps := sleeps w @ [waitMs],
                       store_log := store_log w @ [OpGet key, OpSetex key 2 newSecond],
                       redis_kv := (redis_kv w)(key \<mapsto> newSecond),
                       MEMORY_CACHE := (MEMORY_CACHE w)(key \<mapsto> newSecond)\<rparr>))
               else
                 (\<lparr>allowed = True, waitedMs = 0\<rparr>,
                  w\<lparr>store_log := store_log w @ [OpGet key, OpSetex key 2 (clock w div 1000)],
                    redis_kv := (redis_kv w)(key \<mapsto> clock w div 1000),
                    MEMORY_CACHE := (MEMORY_CACHE w)(key \<mapsto> clock w div 1000)\<rparr>)))"
proof (intro conjI)
  show "let key = getRedisKey accountId accountType;
        waitMs = fst (fst (luaScript (redis_kv w) key (clock w) minIntervalMs 5));
        canExecute = snd (fst (luaScript (redis_kv w) key (clock w) minIntervalMs 5));
        newTimeMs = clock w + waitMs + lag env
    in client env = ClientOk \<and> \<not> eval_fails env \<longrightarrow>
         checkAndWait accountId accountType maxWaitMs minIntervalMs env w =
           (if canExecute = 1 then
              (\<lparr>allowed = True, waitedMs = 0\<rparr>,
               w\<lparr>store_log := store_log w @ [OpEval key],
                 redis_kv := (redis_kv w)(key \<mapsto> clock w),
                 MEMORY_CACHE := (MEMORY_CACHE w)(key \<mapsto> clock w)\<rparr>)
            else if waitMs > maxWaitMs then
              (\<lparr>allowed = False, waitedMs = 0\<rparr>, w\<lparr>store_log := store_log w @ [OpEval key]\<rparr>)
            else
              (\<lparr>allowed = True, waitedMs = waitMs + lag env\<rparr>,
               w\<lparr>clock := newTimeMs, sleeps := sleeps w @ [waitMs],
                 store_log := store_log w @ [OpEval key, OpSetex key 5 newTimeMs],
                 redis_kv := (if setex_fails env then redis_kv w
                              else (redis_kv w)(key \<mapsto> newTimeMs)),
                 MEMORY_CACHE := (MEMORY_CACHE w)(key \<mapsto> newTimeMs)\<rparr>))"
    unfolding Let_def
  proof (intro impI)
    assume up: "client env = ClientOk \<and> \<not> eval_fails env"
    then have "checkAndWait accountId accountType maxWaitMs minIntervalMs env w =
        priv_checkAndWaitWithRedis (getRedisKey accountId accountType) maxWaitMs minIntervalMs
          (clock w) env w"
      by (simp add: checkAndWait_store)
    also note store_path_run [OF conjunct2 [OF up] refl refl refl]
    finally show "checkAndWait accountId accountType maxWaitMs minIntervalMs env w =
        (if snd (fst (luaScript (redis_kv w) (getRedisKey accountId accountType) (clock w) minIntervalMs 5)) = 1
         then (\<lparr>allowed = True, waitedMs = 0\<rparr>,
               w\<lparr>store_log := store_log w @ [OpEval (getRedisKey accountId accountType)],
                 redis_kv := (redis_kv w)(getRedisKey accountId accountType \<mapsto> clock w),
                 MEMORY_CACHE := (MEMORY_CACHE w)(getRedisKey accountId accountType \<mapsto> clock w)\<rparr>)
         else if maxWaitMs
                 < fst (fst (luaScript (redis_kv w) (getRedisKey accountId accountType) (clock w) minIntervalMs 5))
         then (\<lparr>allowed = False, waitedMs = 0\<rparr>,
               w\<lparr>store_log := store_log w @ [OpEval (getRedisKey accountId accountType)]\<rparr>)
         else (\<lparr>allowed = True,
                 waitedMs = fst (fst (luaScript (redis_kv w) (getRedisKey accountId accountType) (clock w)
                              minIntervalMs 5)) + lag env\<rparr>,
               w\<lparr>clock := clock w + fst (fst (luaScript (redis_kv w) (getRedisKey accountId accountType)
                                   (clock w) minIntervalMs 5)) + lag env,
                 sleeps := sleeps w @ [fst (fst (luaScript (redis_kv w) (getRedisKey accountId accountType)
                                   (clock w) minIntervalMs 5))],
                 store_log := store_log w @
                   [OpEval (getRedisKey accountId accountType),
                    OpSetex (getRedisKey accountId accountType) 5
                      (clock w + fst (fst (luaScript (redis_kv w) (getRedisKey accountId accountType)
                                   (clock w) minIntervalMs 5)) + lag env)],
                 redis_kv := (if setex_fails env then redis_kv w
                              else (redis_kv w)(getRedisKey accountId accountType \<mapsto>
                                clock w + fst (fst (luaScript (redis_kv w) (getRedisKey accountId accountType)
                                   (clock w) minIntervalMs 5)) + lag env)),
                 MEMORY_CACHE := (MEMORY_CACHE w)(getRedisKey accountId accountType \<mapsto>
                    clock w + fst (fst (luaScript (redis_kv w) (getRedisKey accountId accountType)
                                   (clock w) minIntervalMs 5)) + lag env)\<rparr>))" .
  qed
next
  show "let key = sameSecond_getRedisKey accountId accountType;
           waitMs = 1000 - js_rem (clock w) 1000;
           newSecond = (clock w + waitMs + lag env) div 1000
       in client env = ClientOk \<and> \<not> get_fails env \<and> \<not> setex_fails env \<longrightarrow>
            sameSecond_checkAndWait accountId accountType maxWaitMs env w =
              (if redis_kv w key = Some (clock w div 1000) then
                 (if waitMs > maxWaitMs then
                    (\<lparr>allowed = False, waitedMs = 0\<rparr>, w\<lparr>store_log := store_log w @ [OpGet key]\<rparr>)
                  else
                    (\<lparr>allowed = True, waitedMs = waitMs + lag env\<rparr>,
                     w\<lparr>clock := clock w + waitMs + lag env, sleeps := sleeps w @ [waitMs],
                       store_log := store_log w @ [OpGet key, OpSetex key 2 newSecond],
                       redis_kv := (redis_kv w)(key \<mapsto> newSecond),
                       MEMORY_CACHE := (MEMORY_CACHE w)(key \<mapsto> newSecond)\<rparr>))
               else
                 (\<lparr>allowed = True, waitedMs = 0\<rparr>,
                  w\<lparr>store_log := store_log w @ [OpGet key, OpSetex key 2 (clock w div 1000)],
                    redis_kv := (redis_kv w)(key \<mapsto> clock w div 1000),
                    MEMORY_CACHE := (MEMORY_CACHE w)(key \<mapsto> clock w div 1000)\<rparr>))"
    unfolding Let_def
    using sameSecond_store_path [OF _ _ _ refl refl refl, where env = env and a = accountId
        and ty = accountType and w = w and mw = maxWaitMs]
    by blast
qed

theorem pacing_store_commands_witness:
  "checkAndWait ''acc'' ''claude'' 1000 0 env_up
       (world_at [getRedisKey ''acc'' ''claude'' \<mapsto> 1500] Map.empty 1700)
     = (\<lparr>allowed = True, waitedMs = 300\<rparr>,
        \<lparr>redis_kv = [getRedisKey ''acc'' ''claude'' \<mapsto> 2000],
          MEMORY_CACHE = [getRedisKey ''acc'' ''claude'' \<mapsto> 2000], clock = 2000,
          store_log = [OpEval (getRedisKey ''acc'' ''claude''),
                       OpSetex (getRedisKey ''acc'' ''claude'') 5 2000],
          sleeps = [300]\<rparr>)
   \<and> checkAndWait ''acc'' ''claude'' 1000 0 (env_up\<lparr>setex_fails := True\<rparr>)
       (world_at [getRedisKey ''acc'' ''claude'' \<mapsto> 1500] Map.empty 1700)
     = (\<lparr>allowed = True, waitedMs = 300\<rparr>,
        \<lparr>redis_kv = [getRedisKey ''acc'' ''claude'' \<mapsto> 1500],
          MEMORY_CACHE = [getRedisKey ''acc'' ''claude'' \<mapsto> 2000], clock = 2000,
          store_log = [OpEval (getRedisKey ''acc'' ''claude''),
                       OpSetex (getRedisKey ''acc'' ''claude'') 5 2000],
          sleeps = [300]\<rparr>)
   \<and> checkAndWait ''acc'' ''claude'' 250 0 env_up
       (world_at [getRedisKey ''acc'' ''claude'' \<mapsto> 1500] Map.empty 1700)
     = (\<lparr>allowed = False, waitedMs = 0\<rparr>,
        \<lparr>redis_kv = [getRedisKey ''acc'' ''claude'' \<mapsto> 1500], MEMORY_CACHE = Map.empty, clock = 1700,
          store_log = [OpEval (getRedisKey ''acc'' ''claude'')], sleeps = []\<rparr>)
   \<and> checkAndWait ''acc'' ''claude'' 1000 0 env_up (world_at Map.empty Map.empty 1700)
     = (\<lparr>allowed = True, waitedMs = 0\<rparr>,
        \<lparr>redis_kv = [getRedisKey ''acc'' ''claude'' \<mapsto> 1700],
          MEMORY_CACHE = [getRedisKey ''acc'' ''claude'' \<mapsto> 1700], clock = 1700,
          store_log = [OpEval (getRedisKey ''acc'' ''claude'')], sleeps = []\<rparr>)
   \<and> store_log (snd (sameSecond_checkAndWait ''acc'' ''claude'' 1000 env_up
       (world_at Map.empty Map.empty 1700)))
     = [OpGet (sameSecond_getRedisKey ''acc'' ''claude''),
        OpSetex (sameSecond_getRedisKey ''acc'' ''claude'') 2 1]
   \<and> fst (sameSecond_checkAndWait ''acc'' ''claude'' 1000 env_up (world_at Map.empty Map.empty 1700))
     = \<lparr>allowed = True, waitedMs = 0\<rparr>"
proof -
  have l: "luaScript [getRedisKey ''acc'' ''claude'' \<mapsto> 1500] (getRedisKey ''acc'' ''claude'') 1700 0 5
      = ((300, 0), [getRedisKey ''acc'' ''claude'' \<mapsto> 1500])"
    by (simp add: luaScript_def)
  have l0: "luaScript Map.empty (getRedisKey ''acc'' ''claude'') 1700 0 5
      = ((0, 1), [getRedisKey ''acc'' ''claude'' \<mapsto> 1700])"
    by (simp add: luaScript_def)
  have a: "checkAndWait ''acc'' ''claude'' 1000 0 env_up
       (world_at [getRedisKey ''acc'' ''claude'' \<mapsto> 1500] Map.empty 1700)
     = (\<lparr>allowed = True, waitedMs = 300\<rparr>,
        \<lparr>redis_kv = [getRedisKey ''acc'' ''claude'' \<mapsto> 2000],
          MEMORY_CACHE = [getRedisKey ''acc'' ''claude'' \<mapsto> 2000], clock = 2000,
          store_log = [OpEval (getRedisKey ''acc'' ''claude''),
                       OpSetex (getRedisKey ''acc'' ''claude'') 5 2000],
          sleeps = [300]\<rparr>)"
    using l pacing_store_commands [where minIntervalMs = 0 and env = env_up
      and accountId = "''acc''" and accountType = "''claude''" and maxWaitMs = 1000
      and w = "world_at [getRedisKey ''acc'' ''claude'' \<mapsto> 1500] Map.empty 1700"]
    by (simp add: Let_def env_up_def world_at_def)
  have b: "checkAndWait ''acc'' ''claude'' 1000 0 (env_up\<lparr>setex_fails := True\<rparr>)
       (world_at [getRedisKey ''acc'' ''claude'' \<mapsto> 1500] Map.empty 1700)
     = (\<lparr>allowed = True, waitedMs = 300\<rparr>,
        \<lparr>redis_kv = [getRedisKey ''acc'' ''claude'' \<mapsto> 1500],
          MEMORY_CACHE = [getRedisKey ''acc'' ''claude'' \<mapsto> 2000], clock = 2000,
          store_log = [OpEval (getRedisKey ''acc'' ''claude''),
                       OpSetex (getRedisKey ''acc'' ''claude'') 5 2000],
          sleeps = [300]\<rparr>)"
    using l pacing_store_commands [where minIntervalMs = 0 and env = "env_up\<lparr>setex_fails := True\<rparr>"
      and accountId = "''acc''" and accountType = "''claude''" and maxWaitMs = 1000
      and w = "world_at [getRedisKey ''acc'' ''claude'' \<mapsto> 1500] Map.empty 1700"]
    by (simp add: Let_def env_up_def world_at_def)
  have c: "checkAndWait ''acc'' ''claude'' 250 0 env_up
       (world_at [getRedisKey ''acc'' ''claude'' \<mapsto> 1500] Map.empty 1700)
     = (\<lparr>allowed = False, waitedMs = 0\<rparr>,
        \<lparr>redis_kv = [getRedisKey ''acc'' ''claude'' \<mapsto> 1500], MEMORY_CACHE = Map.empty, clock = 1700,
          store_log = [OpEval (getRedisKey ''acc'' ''claude'')], sleeps = []\<rparr>)"
    using l pacing_store_commands [where minIntervalMs = 0 and env = env_up
      and accountId = "''acc''" and accountType = "''claude''" and maxWaitMs = 250
      and w = "world_at [getRedisKey ''acc'' ''claude'' \<mapsto> 1500] Map.empty 1700"]
    by (simp add: Let_def env_up_def world_at_def)
  have d: "checkAndWait ''acc'' ''claude'' 1000 0 env_up (world_at Map.empty Map.empty 1700)
     = (\<lparr>allowed = True, waitedMs = 0\<rparr>,
        \<lparr>redis_kv = [getRedisKey ''acc'' ''claude'' \<mapsto> 1700],
          MEMORY_CACHE = [getRedisKey ''acc'' ''claude'' \<mapsto> 1700], clock = 1700,
          store_log = [OpEval (getRedisKey ''acc'' ''claude'')], sleeps = []\<rparr>)"
    using l0 pacing_store_commands [where minIntervalMs = 0 and env = env_up
      and accountId = "''acc''" and accountType = "''claude''" and maxWaitMs = 1000
      and w = "world_at Map.empty Map.empty 1700"]
    by (simp add: Let_def env_up_def world_at_def)
  have e: "sameSecond_checkAndWait ''acc'' ''claude'' 1000 env_up (world_at Map.empty Map.empty 1700)
     = (\<lparr>allowed = True, waitedMs = 0\<rparr>,
        \<lparr>redis_kv = [sameSecond_getRedisKey ''acc'' ''claude'' \<mapsto> 1],
          MEMORY_CACHE = [sameSecond_getRedisKey ''acc'' ''claude'' \<mapsto> 1], clock = 1700,
          store_log = [OpGet (sameSecond_getRedisKey ''acc'' ''claude''),
                       OpSetex (sameSecond_getRedisKey ''acc'' ''claude'') 2 1],
          sleeps = []\<rparr>)"
    using pacing_store_commands [where env = env_up
      and accountId = "''acc''" and accountType = "''claude''" and maxWaitMs = 1000
      and w = "world_at Map.empty Map.empty 1700"]
    by (simp add: Let_def env_up_def world_at_def)
  show ?thesis using a b c d e by simp
qed

text \<open>
  C1, as stated, fails: the account's last request was at 1500 ms and the call comes at
  1700 ms in same-second mode. The script finds the conflict, the call sleeps 300 ms, and
  then writes the time 2000 with a plain \<open>SETEX\<close>; the same-second guard, on a first
  request, reads with \<open>GET\<close> and writes with \<open>SETEX\<close>.
\<close>

theorem pacing_plain_write_counterexample:
  "store_log (snd (checkAndWait ''acc'' ''claude'' 1000 0 env_up
       (world_at [getRedisKey ''acc'' ''claude'' \<mapsto> 1500] Map.empty 1700)))
     = [OpEval ''request_interval_guard:claude:acc'',
        OpSetex ''request_interval_guard:claude:acc'' 5 2000]
   \<and> sleeps (snd (checkAndWait ''acc'' ''claude'' 1000 0 env_up
       (world_at [getRedisKey ''acc'' ''claude'' \<mapsto> 1500] Map.empty 1700))) = [300]
   \<and> store_log (snd (sameSecond_checkAndWait ''acc'' ''claude'' 1000 env_up
       (world_at Map.empty Map.empty 1700)))
     = [OpGet ''same_second_guard:claude:acc'', OpSetex ''same_second_guard:claude:acc'' 2 1]"
proof -
  have l: "luaScript [getRedisKey ''acc'' ''claude'' \<mapsto> 1500] (getRedisKey ''acc'' ''claude'') 1700 0 5
      = ((300, 0), [getRedisKey ''acc'' ''claude'' \<mapsto> 1500])"
    by (simp add: luaScript_def)
  have k: "getRedisKey ''acc'' ''claude'' = ''request_interval_guard:claude:acc''"
    by (simp add: getRedisKey_def REDIS_KEY_PREFIX_def)
  have k': "sameSecond_getRedisKey ''acc'' ''claude'' = ''same_second_guard:claude:acc''"
    by (simp add: sameSecond_getRedisKey_def SAME_SECOND_KEY_PREFIX_def)
  have a: "checkAndWait ''acc'' ''claude'' 1000 0 env_up
       (world_at [getRedisKey ''acc'' ''claude'' \<mapsto> 1500] Map.empty 1700)
     = (\<lparr>allowed = True, waitedMs = 300\<rparr>,
        \<lparr>redis_kv = [getRedisKey ''acc'' ''claude'' \<mapsto> 2000],
          MEMORY_CACHE = [getRedisKey ''acc'' ''claude'' \<mapsto> 2000], clock = 2000,
          store_log = [OpEval (getRedisKey ''acc'' ''claude''),
                       OpSetex (getRedisKey ''acc'' ''claude'') 5 2000],
          sleeps = [300]\<rparr>)"
    using l by (simp add: checkAndWait_store redis_wait [OF _ _ _ refl refl] env_up_def world_at_def)
  have b: "store_log (snd (sameSecond_checkAndWait ''acc'' ''claude'' 1000 env_up
       (world_at Map.empty Map.empty 1700)))
     = [OpGet (sameSecond_getRedisKey ''acc'' ''claude''),
        OpSetex (sameSecond_getRedisKey ''acc'' ''claude'') 2 1]"
    by (simp add: sameSecond_store_path [OF _ _ _ refl refl refl] env_up_def world_at_def)
  show ?thesis using a b by (simp add: k k')
qed

section \<open>Properties of the account rate limiter\<close>

declare acquire_loop.simps [simp del]

lemma pollInterval_le: "pollInterval n rnd \<le> 500"
  by (simp add: pollInterval_def POLL_INTERVAL_MAX_MS_def Let_def)

lemma timerDelay_poll: "timerDelay (pollInterval n rnd) \<le> 500"
proof (cases "1 \<le> pollInterval n rnd \<and> pollInterval n rnd \<le> TIMEOUT_MAX")
  case True
  have "\<lfloor>pollInterval n rnd\<rfloor> \<le> \<lfloor>500::real\<rfloor>"
    using pollInterval_le by (rule floor_mono)
  with True show ?thesis by (simp add: timerDelay_def)
next
  case False
  then show ?thesis by (auto simp add: timerDelay_def)
qed

lemma timerDelay_explicit: "0 < x \<Longrightarrow> timerDelay (real_of_int x) \<le> x"
  by (simp add: timerDelay_def)

lemma called_fields [simp]:
  "now (called env st) = now st" "slept (called env st) = slept st"
  "retryCount (called env st) = retryCount st" "calls (called env st) = Suc (calls st)"
  "replies (called env st) = replies st @ [store env (calls st) (now st)]"
  by (simp_all add: called_def)

lemma wait_step_fields:
  "calls (wait_step cfg env start oldest st) = Suc (calls st)"
  "replies (wait_step cfg env start oldest st) = replies st @ [store env (calls st) (now st)]"
  "length (slept (wait_step cfg env start oldest st)) = Suc (length (slept st))"
  "sum_list (slept (wait_step cfg env start oldest st)) - now (wait_step cfg env start oldest st)
     = sum_list (slept st) - now st"
  by (simp_all add: wait_step_def rl_sleep_def Let_def)

lemma wait_step_bound:
  assumes "now st - start < queueTimeoutMs cfg"
    and "\<not> computeWaitMs cfg oldest (now st) > queueTimeoutMs cfg - (now st - start)"
  shows "now (wait_step cfg env start oldest st) - start \<le> queueTimeoutMs cfg + 500"
proof (cases "computeWaitMs cfg oldest (now st) > 0")
  case True
  then have "timerDelay (real_of_int (min (computeWaitMs cfg oldest (now st))
      (queueTimeoutMs cfg - (now st - start)))) \<le> queueTimeoutMs cfg - (now st - start)"
    using assms timerDelay_explicit [of "min (computeWaitMs cfg oldest (now st))
      (queueTimeoutMs cfg - (now st - start))"] by simp
  with True show ?thesis by (simp add: wait_step_def rl_sleep_def Let_def)
next
  case False
  with assms(1) timerDelay_poll [of "retryCount st" "random env (calls st)"]
  show ?thesis by (simp add: wait_step_def rl_sleep_def Let_def)
qed


text \<open>A rule for the loop: a property of the state at the head of an iteration and of
  the result holds for the loop when it holds for each way out of an iteration, and is
  carried back over each sleep.\<close>

lemma acquire_loop_rule [case_names deadline backend_error acquired exceeded over_budget sleep]:
  assumes "\<And>st. \<not> now st - start < queueTimeoutMs cfg \<Longrightarrow>
             P st (failed reqId ''queue_timeout'' None, st)"
    and "\<And>st msg. now st - start < queueTimeoutMs cfg \<Longrightarrow>
             store env (calls st) (now st) = StoreError msg \<Longrightarrow>
             P st (failed reqId ''rate_limit_backend_error'' (Some msg), called env st)"
    and "\<And>st cnt oldest. now st - start < queueTimeoutMs cfg \<Longrightarrow>
             store env (calls st) (now st) = Reply True cnt oldest \<Longrightarrow>
             P st (\<lparr>acquired = True, requestId = reqId, error = None, errorMessage = None,
                    acq_waitedMs = Some (now st - start), skipped = False\<rparr>, called env st)"
    and "\<And>st cnt oldest. now st - start < queueTimeoutMs cfg \<Longrightarrow>
             store env (calls st) (now st) = Reply False cnt oldest \<Longrightarrow>
             \<not> enableQueueing cfg \<Longrightarrow>
             P st (failed reqId ''rate_limit_exceeded'' None, called env st)"
    and "\<And>st cnt oldest. now st - start < queueTimeoutMs cfg \<Longrightarrow>
             store env (calls st) (now st) = Reply False cnt oldest \<Longrightarrow>
             enableQueueing cfg \<Longrightarrow>
             computeWaitMs cfg oldest (now st) > queueTimeoutMs cfg - (now st - start) \<Longrightarrow>
             P st (failed reqId ''queue_timeout'' None, called env st)"
    and "\<And>st cnt oldest r. now st - start < queueTimeoutMs cfg \<Longrightarrow>
             store env (calls st) (now st) = Reply False cnt oldest \<Longrightarrow>
             enableQueueing cfg \<Longrightarrow>
             \<not> computeWaitMs cfg oldest (now st) > queueTimeoutMs cfg - (now st - start) \<Longrightarrow>
             P (wait_step cfg env start oldest st) r \<Longrightarrow> P st r"
  shows "P st (acquire_loop cfg env reqId start st)"
proof (induction "nat (queueTimeoutMs cfg - (now st - start))" arbitrary: st rule: less_induct)
  case less
  show ?case
  proof (cases "now st - start < queueTimeoutMs cfg")
    case False
    then have "acquire_loop cfg env reqId start st = (failed reqId ''queue_timeout'' None, st)"
      by (simp add: acquire_loop.simps)
    with False assms(1) show ?thesis by simp
  next
    case True
    show ?thesis
    proof (cases "store env (calls st) (now st)")
      case (StoreError msg)
      with True have "acquire_loop cfg env reqId start st =
          (failed reqId ''rate_limit_backend_error'' (Some msg), called env st)"
        by (simp add: acquire_loop.simps)
      with True StoreError assms(2) show ?thesis by simp
    next
      case (Reply acq cnt oldest)
      consider (a) "acq" | (b) "\<not> acq" "\<not> enableQueueing cfg"
        | (c) "\<not> acq" "enableQueueing cfg"
              "computeWaitMs cfg oldest (now st) > queueTimeoutMs cfg - (now st - start)"
        | (d) "\<not> acq" "enableQueueing cfg"
              "\<not> computeWaitMs cfg oldest (now st) > queueTimeoutMs cfg - (now st - start)"
        by blast
      then show ?thesis
      proof cases
        case a
        with True Reply have "acquire_loop cfg env reqId start st =
            (\<lparr>acquired = True, requestId = reqId, error = None, errorMessage = None,
              acq_waitedMs = Some (now st - start), skipped = False\<rparr>, called env st)"
          by (simp add: acquire_loop.simps)
        with True Reply a assms(3) [of st cnt oldest] show ?thesis by simp
      next
        case b
        with True Reply have "acquire_loop cfg env reqId start st =
            (failed reqId ''rate_limit_exceeded'' None, called env st)"
          by (simp add: acquire_loop.simps)
        with True Reply b assms(4) [of st cnt oldest] show ?thesis by simp
      next
        case c
        with True Reply have "acquire_loop cfg env reqId start st =
            (failed reqId ''queue_timeout'' None, called env st)"
          by (simp add: acquire_loop.simps)
        with True Reply c assms(5) [of st cnt oldest] show ?thesis by simp
      next
        case d
        let ?st' = "wait_step cfg env start oldest st"
        have eq: "acquire_loop cfg env reqId start st = acquire_loop cfg env reqId start ?st'"
          using True Reply d by (simp add: acquire_loop.simps [of cfg env reqId start st])
        have "nat (queueTimeoutMs cfg - (now ?st' - start)) < nat (queueTimeoutMs cfg - (now st - start))"
          using True now_wait_step [of st cfg env start oldest] by simp
        then have "P ?st' (acquire_loop cfg env reqId start ?st')"
          by (rule less.hyps)
        then have "P st (acquire_loop cfg env reqId start ?st')"
          using True Reply d assms(6) [of st cnt oldest] by simp
        with eq show ?thesis by simp
      qed
    qed
  qed
qed

lemma acquire_loop_bound:
  assumes "queueTimeoutMs cfg + 500 \<le> B"
  shows "now st - start \<le> B \<longrightarrow> now (snd (acquire_loop cfg env reqId start st)) - start \<le> B"
proof (induction st rule: acquire_loop_rule [where cfg = cfg and env = env and reqId = reqId and start = start])
  case (sleep st cnt oldest r)
  then show ?case using wait_step_bound [of st start cfg oldest env] assms by simp
qed simp_all

lemma acquire_loop_slept:
  "sum_list (slept (snd (acquire_loop cfg env reqId start st)))
     - now (snd (acquire_loop cfg env reqId start st)) = sum_list (slept st) - now st"
proof (induction st rule: acquire_loop_rule [where cfg = cfg and env = env and reqId = reqId and start = start])
  case (sleep st cnt oldest r)
  then show ?case by (simp add: wait_step_fields)
qed simp_all

lemma acquire_loop_error:
  "(\<forall>m. StoreError m \<notin> set (replies st)) \<and> length (slept st) = length (replies st) \<longrightarrow>
   StoreError msg \<in> set (replies (snd (acquire_loop cfg env reqId start st))) \<longrightarrow>
     fst (acquire_loop cfg env reqId start st) = failed reqId ''rate_limit_backend_error'' (Some msg)
     \<and> last (replies (snd (acquire_loop cfg env reqId start st))) = StoreError msg
     \<and> Suc (length (slept (snd (acquire_loop cfg env reqId start st))))
         = length (replies (snd (acquire_loop cfg env reqId start st)))"
proof (induction st rule: acquire_loop_rule [where cfg = cfg and env = env and reqId = reqId and start = start])
  case (sleep st cnt oldest r)
  then show ?case by (simp add: wait_step_fields)
qed auto


text \<open>Two runs on the example stores, evaluated.\<close>

lemma first_poll: "timerDelay (pollInterval 0 (1/2)) = 50"
  by (simp add: timerDelay_def pollInterval_def POLL_INTERVAL_BASE_MS_def POLL_INTERVAL_MAX_MS_def
      POLL_BACKOFF_FACTOR_def TIMEOUT_MAX_def Let_def)

lemma second_poll: "timerDelay (pollInterval (Suc 0) (1/2)) = 75"
  by (simp add: timerDelay_def pollInterval_def POLL_INTERVAL_BASE_MS_def POLL_INTERVAL_MAX_MS_def
      POLL_BACKOFF_FACTOR_def TIMEOUT_MAX_def Let_def)

lemma run_queue_timeout: "acquireRateLimit cfg_queue store_full None 1000 =
   (failed ''req-1'' ''queue_timeout'' None,
    \<lparr>now = 1125, retryCount = 2, calls = 2, replies = [Reply False 21 None, Reply False 21 None],
      slept = [50, 75]\<rparr>)"
  by (simp add: acquireRateLimit_def cfg_queue_def store_full_def acquire_loop.simps wait_step_def
      computeWaitMs_def called_def rl_sleep_def first_poll second_poll)

lemma run_backend_error: "acquireRateLimit cfg_queue store_breaks None 1000 =
   (failed ''req-1'' ''rate_limit_backend_error'' (Some ''ECONNRESET''),
    \<lparr>now = 1050, retryCount = 0, calls = 2,
      replies = [Reply False 21 (Some (-58950)), StoreError ''ECONNRESET''], slept = [50]\<rparr>)"
  by (simp add: acquireRateLimit_def cfg_queue_def store_breaks_def acquire_loop.simps wait_step_def
      computeWaitMs_def called_def rl_sleep_def timerDelay_def TIMEOUT_MAX_def Let_def)


text \<open>
  C2. If the store throws at an attempt of the loop, \<open>acquireRateLimit\<close> returns at once
  with \<open>acquired = false\<close> and the error \<open>rate_limit_backend_error\<close>: in every run whose
  answers contain an error, that error is the last answer, the result carries its
  message, and no timer was waited for after it. The call has no memory cache to fall
  back to: its state is the clock, the retry count and the log. The pacing guard, when
  its script or \<open>getClient\<close> throws, runs \<open>_checkAndWaitWithMemory\<close> with the same
  arguments.
\<close>

theorem rate_limit_fails_closed:
  "(StoreError msg \<in> set (replies (snd (acquireRateLimit cfg env reqIdOpt t0))) \<longrightarrow>
      acquired (fst (acquireRateLimit cfg env reqIdOpt t0)) = False \<and>
      error (fst (acquireRateLimit cfg env reqIdOpt t0)) = Some ''rate_limit_backend_error'' \<and>
      errorMessage (fst (acquireRateLimit cfg env reqIdOpt t0)) = Some msg \<and>
      last (replies (snd (acquireRateLimit cfg env reqIdOpt t0))) = StoreError msg \<and>
      Suc (length (slept (snd (acquireRateLimit cfg env reqIdOpt t0))))
        = length (replies (snd (acquireRateLimit cfg env reqIdOpt t0))))
   \<and> (now st - start < queueTimeoutMs cfg \<and> store env (calls st) (now st) = StoreError msg \<longrightarrow>
        acquire_loop cfg env reqId start st
          = (failed reqId ''rate_limit_backend_error'' (Some msg), called env st))
   \<and> (client genv = ClientOk \<and> eval_fails genv \<longrightarrow>
        checkAndWait accountId accountType maxWaitMs minIntervalMs genv w
          = priv_checkAndWaitWithMemory (getRedisKey accountId accountType) maxWaitMs minIntervalMs
              (clock w) genv (log_op (OpEval (getRedisKey accountId accountType)) w))
   \<and> (client genv = ClientThrows \<longrightarrow>
        checkAndWait accountId accountType maxWaitMs minIntervalMs genv w
          = priv_checkAndWaitWithMemory (getRedisKey accountId accountType) maxWaitMs minIntervalMs
              (clock w) genv w)"
proof (intro conjI impI)
  assume err: "StoreError msg \<in> set (replies (snd (acquireRateLimit cfg env reqIdOpt t0)))"
  define rid where "rid = (case reqIdOpt of None \<Rightarrow> uuid env | Some r \<Rightarrow> if r = [] then uuid env else r)"
  define st0 where "st0 = \<lparr>now = t0, retryCount = 0, calls = 0, replies = [], slept = []\<rparr>"
  have on: "enabled cfg"
  proof (rule ccontr)
    assume "\<not> enabled cfg"
    then have "replies (snd (acquireRateLimit cfg env reqIdOpt t0)) = []"
      by (simp add: acquireRateLimit_def)
    with err show False by simp
  qed
  then have run: "acquireRateLimit cfg env reqIdOpt t0 = acquire_loop cfg env rid t0 st0"
    by (simp add: acquireRateLimit_def rid_def st0_def)
  have "(\<forall>m. StoreError m \<notin> set (replies st0)) \<and> length (slept st0) = length (replies st0)"
    by (simp add: st0_def)
  with err have fin: "fst (acquire_loop cfg env rid t0 st0) = failed rid ''rate_limit_backend_error'' (Some msg)
     \<and> last (replies (snd (acquire_loop cfg env rid t0 st0))) = StoreError msg
     \<and> Suc (length (slept (snd (acquire_loop cfg env rid t0 st0))))
         = length (replies (snd (acquire_loop cfg env rid t0 st0)))"
    unfolding run using acquire_loop_error [of st0 msg cfg env rid t0] by blast
  show "acquired (fst (acquireRateLimit cfg env reqIdOpt t0)) = False"
    using fin by (simp add: run failed_def)
  show "error (fst (acquireRateLimit cfg env reqIdOpt t0)) = Some ''rate_limit_backend_error''"
    using fin by (simp add: run failed_def)
  show "errorMessage (fst (acquireRateLimit cfg env reqIdOpt t0)) = Some msg"
    using fin by (simp add: run failed_def)
  show "last (replies (snd (acquireRateLimit cfg env reqIdOpt t0))) = StoreError msg"
    using fin by (simp add: run)
  show "Suc (length (slept (snd (acquireRateLimit cfg env reqIdOpt t0))))
        = length (replies (snd (acquireRateLimit cfg env reqIdOpt t0)))"
    using fin by (simp add: run)
next
  assume "now st - start < queueTimeoutMs cfg \<and> store env (calls st) (now st) = StoreError msg"
  then show "acquire_loop cfg env reqId start st
      = (failed reqId ''rate_limit_backend_error'' (Some msg), called env st)"
    by (simp add: acquire_loop.simps)
next
  assume "client genv = ClientOk \<and> eval_fails genv"
  then show "checkAndWait accountId accountType maxWaitMs minIntervalMs genv w
      = priv_checkAndWaitWithMemory (getRedisKey accountId accountType) maxWaitMs minIntervalMs
          (clock w) genv (log_op (OpEval (getRedisKey accountId accountType)) w)"
    by (simp add: checkAndWait_store redis_fallback)
next
  assume "client genv = ClientThrows"
  then show "checkAndWait accountId accountType maxWaitMs minIntervalMs genv w
      = priv_checkAndWaitWithMemory (getRedisKey accountId accountType) maxWaitMs minIntervalMs
          (clock w) genv w"
    by (simp add: checkAndWait_memory)
qed

theorem rate_limit_fails_closed_witness:
  "acquireRateLimit cfg_queue store_breaks None 1000 =
     (\<lparr>acquired = False, requestId = ''req-1'', error = Some ''rate_limit_backend_error'',
       errorMessage = Some ''ECONNRESET'', acq_waitedMs = None, skipped = False\<rparr>,
      \<lparr>now = 1050, retryCount = 0, calls = 2,
        replies = [Reply False 21 (Some (-58950)), StoreError ''ECONNRESET''], slept = [50]\<rparr>)
   \<and> acquire_loop cfg_queue store_breaks ''req-1'' 1000
        \<lparr>now = 1050, retryCount = 0, calls = 1, replies = [Reply False 21 (Some (-58950))], slept = [50]\<rparr>
      = (failed ''req-1'' ''rate_limit_backend_error'' (Some ''ECONNRESET''),
         \<lparr>now = 1050, retryCount = 0, calls = 2,
           replies = [Reply False 21 (Some (-58950)), StoreError ''ECONNRESET''], slept = [50]\<rparr>)
   \<and> fst (checkAndWait ''acc'' ''claude'' 1000 0 env_down
        (world_at Map.empty [getRedisKey ''acc'' ''claude'' \<mapsto> 1500] 1700))
      = \<lparr>allowed = True, waitedMs = 300\<rparr>
   \<and> checkAndWait ''acc'' ''claude'' 1000 0 (env_up\<lparr>client := ClientThrows\<rparr>)
        (world_at Map.empty [getRedisKey ''acc'' ''claude'' \<mapsto> 1500] 1700)
      = (\<lparr>allowed = True, waitedMs = 300\<rparr>,
         \<lparr>redis_kv = Map.empty, MEMORY_CACHE = [getRedisKey ''acc'' ''claude'' \<mapsto> 2000],
           clock = 2000, store_log = [], sleeps = [300]\<rparr>)"
proof -
  have a: "acquireRateLimit cfg_queue store_breaks None 1000 =
     (\<lparr>acquired = False, requestId = ''req-1'', error = Some ''rate_limit_backend_error'',
       errorMessage = Some ''ECONNRESET'', acq_waitedMs = None, skipped = False\<rparr>,
      \<lparr>now = 1050, retryCount = 0, calls = 2,
        replies = [Reply False 21 (Some (-58950)), StoreError ''ECONNRESET''], slept = [50]\<rparr>)"
    using rate_limit_fails_closed [where cfg = cfg_queue and env = store_breaks
        and reqIdOpt = None and ?t0.0 = 1000 and msg = "''ECONNRESET''"] run_backend_error
    by (simp add: failed_def)
  have b: "acquire_loop cfg_queue store_breaks ''req-1'' 1000
        \<lparr>now = 1050, retryCount = 0, calls = 1, replies = [Reply False 21 (Some (-58950))], slept = [50]\<rparr>
      = (failed ''req-1'' ''rate_limit_backend_error'' (Some ''ECONNRESET''),
         \<lparr>now = 1050, retryCount = 0, calls = 2,
           replies = [Reply False 21 (Some (-58950)), StoreError ''ECONNRESET''], slept = [50]\<rparr>)"
    using rate_limit_fails_closed [where cfg = cfg_queue and env = store_breaks
        and reqId = "''req-1''" and start = 1000 and msg = "''ECONNRESET''"
        and st = "\<lparr>now = 1050, retryCount = 0, calls = 1,
                    replies = [Reply False 21 (Some (-58950))], slept = [50]\<rparr>"]
    by (simp add: cfg_queue_def store_breaks_def called_def)
  have m: "memoryWaitMs (Some 1500) 1700 0 = 300"
    by (simp add: memoryWaitMs_def js_rem_def)
  have c: "fst (checkAndWait ''acc'' ''claude'' 1000 0 env_down
        (world_at Map.empty [getRedisKey ''acc'' ''claude'' \<mapsto> 1500] 1700))
      = \<lparr>allowed = True, waitedMs = 300\<rparr>"
    using rate_limit_fails_closed [where genv = env_down and accountId = "''acc''"
        and accountType = "''claude''" and maxWaitMs = 1000 and minIntervalMs = 0
        and w = "world_at Map.empty [getRedisKey ''acc'' ''claude'' \<mapsto> 1500] 1700"] m
    by (simp add: env_down_def world_at_def memory_wait [OF _ _ refl refl])
  have d: "checkAndWait ''acc'' ''claude'' 1000 0 (env_up\<lparr>client := ClientThrows\<rparr>)
        (world_at Map.empty [getRedisKey ''acc'' ''claude'' \<mapsto> 1500] 1700)
      = (\<lparr>allowed = True, waitedMs = 300\<rparr>,
         \<lparr>redis_kv = Map.empty, MEMORY_CACHE = [getRedisKey ''acc'' ''claude'' \<mapsto> 2000],
           clock = 2000, store_log = [], sleeps = [300]\<rparr>)"
    using rate_limit_fails_closed [where genv = "env_up\<lparr>client := ClientThrows\<rparr>"
        and accountId = "''acc''" and accountType = "''claude''" and maxWaitMs = 1000
        and minIntervalMs = 0
        and w = "world_at Map.empty [getRedisKey ''acc'' ''claude'' \<mapsto> 1500] 1700"] m
    by (simp add: env_up_def world_at_def memory_wait [OF _ _ refl refl])
  show ?thesis using a b c d by simp
qed

text \<open>
  C4. With timers that fire on time and store calls that take no time, a call of
  \<open>acquireRateLimit\<close> returns, and the timers it has waited for add up to at most
  \<open>queueTimeoutMs\<close> plus 500 ms, the largest poll interval; the clock at the return is
  the clock at the call plus that sum. The deadline is tested at the head of every
  iteration; an explicit wait longer than what is left of \<open>queueTimeoutMs\<close> ends the call
  with \<open>queue_timeout\<close> and no sleep; an explicit wait that is performed is no longer than
  what is left.
\<close>

theorem rate_limit_timeout_bound:
  assumes "0 \<le> queueTimeoutMs cfg"
  shows "sum_list (slept (snd (acquireRateLimit cfg env reqIdOpt t0))) \<le> queueTimeoutMs cfg + 500
   \<and> now (snd (acquireRateLimit cfg env reqIdOpt t0))
       = t0 + sum_list (slept (snd (acquireRateLimit cfg env reqIdOpt t0)))
   \<and> (\<not> now st - start < queueTimeoutMs cfg \<longrightarrow>
        acquire_loop cfg env reqId start st = (failed reqId ''queue_timeout'' None, st))
   \<and> (now st - start < queueTimeoutMs cfg \<and> store env (calls st) (now st) = Reply False cnt oldest \<and>
      enableQueueing cfg \<and>
      computeWaitMs cfg oldest (now st) > queueTimeoutMs cfg - (now st - start) \<longrightarrow>
        acquire_loop cfg env reqId start st = (failed reqId ''queue_timeout'' None, called env st))
   \<and> (0 < computeWaitMs cfg oldest (now st) \<and>
      computeWaitMs cfg oldest (now st) \<le> queueTimeoutMs cfg - (now st - start) \<longrightarrow>
        now (wait_step cfg env start oldest st) - now st \<le> queueTimeoutMs cfg - (now st - start) \<and>
        slept (wait_step cfg env start oldest st)
          = slept st @ [now (wait_step cfg env start oldest st) - now st])"
proof -
  define rid where "rid = (case reqIdOpt of None \<Rightarrow> uuid env | Some r \<Rightarrow> if r = [] then uuid env else r)"
  define st0 where "st0 = \<lparr>now = t0, retryCount = 0, calls = 0, replies = [], slept = []\<rparr>"
  define r where "r = acquireRateLimit cfg env reqIdOpt t0"
  have sum: "sum_list (slept (snd r)) - now (snd r) = - t0"
  proof (cases "enabled cfg")
    case True
    then have "r = acquire_loop cfg env rid t0 st0"
      by (simp add: r_def acquireRateLimit_def rid_def st0_def)
    then show ?thesis
      using acquire_loop_slept [of cfg env rid t0 st0] by (simp add: st0_def)
  next
    case False
    then show ?thesis by (simp add: r_def acquireRateLimit_def)
  qed
  have bound: "now (snd r) - t0 \<le> queueTimeoutMs cfg + 500"
  proof (cases "enabled cfg")
    case True
    then have "r = acquire_loop cfg env rid t0 st0"
      by (simp add: r_def acquireRateLimit_def rid_def st0_def)
    then show ?thesis
      using acquire_loop_bound [of cfg "queueTimeoutMs cfg + 500" st0 t0 env rid] assms
      by (simp add: st0_def)
  next
    case False
    then show ?thesis using assms by (simp add: r_def acquireRateLimit_def)
  qed
  have late: "acquire_loop cfg env reqId start st = (failed reqId ''queue_timeout'' None, st)"
    if "\<not> now st - start < queueTimeoutMs cfg"
    using that by (simp add: acquire_loop.simps)
  have over: "acquire_loop cfg env reqId start st = (failed reqId ''queue_timeout'' None, called env st)"
    if "now st - start < queueTimeoutMs cfg \<and> store env (calls st) (now st) = Reply False cnt oldest \<and>
      enableQueueing cfg \<and> computeWaitMs cfg oldest (now st) > queueTimeoutMs cfg - (now st - start)"
    using that by (simp add: acquire_loop.simps)
  have capped: "now (wait_step cfg env start oldest st) - now st \<le> queueTimeoutMs cfg - (now st - start) \<and>
        slept (wait_step cfg env start oldest st)
          = slept st @ [now (wait_step cfg env start oldest st) - now st]"
    if "0 < computeWaitMs cfg oldest (now st) \<and>
      computeWaitMs cfg oldest (now st) \<le> queueTimeoutMs cfg - (now st - start)"
    using that timerDelay_explicit [of "computeWaitMs cfg oldest (now st)"]
    by (simp add: wait_step_def rl_sleep_def Let_def)
  show ?thesis
    unfolding r_def [symmetric] using sum bound late over capped by (simp (no_asm_simp))
qed

theorem rate_limit_timeout_bound_witness:
  "0 \<le> queueTimeoutMs cfg_queue
   \<and> sum_list (slept (snd (acquireRateLimit cfg_queue store_full None 1000))) \<le> 600
   \<and> slept (snd (acquireRateLimit cfg_queue store_full None 1000)) = [50, 75]
   \<and> acquire_loop cfg_queue store_full ''req-1'' 1000 (state_at 1100)
       = (failed ''req-1'' ''queue_timeout'' None, state_at 1100)
   \<and> fst (acquire_loop cfg_queue store_far ''req-1'' 1000 (state_at 1000))
       = failed ''req-1'' ''queue_timeout'' None
   \<and> slept (snd (acquire_loop cfg_queue store_far ''req-1'' 1000 (state_at 1000))) = []
   \<and> slept (wait_step cfg_queue store_breaks 1000 (Some (-58950)) (state_at 1000)) = [50]"
proof -
  have q: "0 \<le> queueTimeoutMs cfg_queue" by (simp add: cfg_queue_def)
  note t = rate_limit_timeout_bound [OF q]
  have a: "sum_list (slept (snd (acquireRateLimit cfg_queue store_full None 1000))) \<le> 600"
    using t [where env = store_full and reqIdOpt = None and ?t0.0 = 1000]
    by (simp add: cfg_queue_def)
  have b: "slept (snd (acquireRateLimit cfg_queue store_full None 1000)) = [50, 75]"
    by (simp add: run_queue_timeout)
  have c: "acquire_loop cfg_queue store_full ''req-1'' 1000 (state_at 1100)
       = (failed ''req-1'' ''queue_timeout'' None, state_at 1100)"
    using t [where env = store_full and reqId = "''req-1''" and start = 1000 and st = "state_at 1100"]
    by (simp add: cfg_queue_def state_at_def)
  have w: "computeWaitMs cfg_queue (Some (-58800)) 1000 = 200"
    "computeWaitMs cfg_queue (Some (-58950)) 1000 = 50"
    by (simp_all add: computeWaitMs_def cfg_queue_def)
  have d: "acquire_loop cfg_queue store_far ''req-1'' 1000 (state_at 1000)
       = (failed ''req-1'' ''queue_timeout'' None, called store_far (state_at 1000))"
    using t [where env = store_far and reqId = "''req-1''" and start = 1000 and st = "state_at 1000"
        and cnt = 21 and oldest = "Some (-58800)"] w(1)
    by (simp add: cfg_queue_def state_at_def store_far_def)
  have e: "slept (wait_step cfg_queue store_breaks 1000 (Some (-58950)) (state_at 1000)) = [50]"
    using t [where env = store_breaks and start = 1000 and st = "state_at 1000"
        and oldest = "Some (-58950)"] w(2)
    by (simp add: wait_step_def rl_sleep_def state_at_def timerDelay_def TIMEOUT_MAX_def
        cfg_queue_def)
  show ?thesis using q a b c d e by (simp add: state_at_def failed_def)
qed

section \<open>Properties of the circuit breaker\<close>

subsection \<open>Keys and the two loops over the account types\<close>





text \<open>The commands sent for one record: when none throws the record has all the entries
  of \<open>updates\<close>; whether one throws does not depend on the record; and an update that
  deletes nothing, sent to a store whose \<open>hmset\<close> throws, leaves the record as it is.\<close>

lemma set_delete_fields: "set_fields u (delete_fields u d) = write_fields u d"
  by (cases "upd_State u"; cases "upd_OpenAt u"; cases "upd_OpenUntil u")
     (simp_all add: set_fields_def delete_fields_def write_fields_def apply_set_def
        apply_delete_def apply_update_def)

lemma delete_fields_none: "\<not> has_deletes u \<Longrightarrow> delete_fields u d = d"
  by (cases "upd_State u"; cases "upd_OpenAt u"; cases "upd_OpenUntil u")
     (simp_all add: has_deletes_def is_null_def delete_fields_def apply_delete_def)


lemma write_hash_ok:
  "\<not> (has_deletes u \<and> hdel_fails env) \<Longrightarrow> \<not> (has_values u \<and> hmset_fails env) \<Longrightarrow>
   write_hash env u d = (True, write_fields u d)"
  by (auto simp: write_hash_def Let_def set_delete_fields)

lemma write_hash_hmset_fails:
  "\<not> has_deletes u \<Longrightarrow> has_values u \<Longrightarrow> hmset_fails env \<Longrightarrow> write_hash env u d = (False, d)"
  by (simp add: write_hash_def Let_def delete_fields_none)

lemma update_loop_errors [simp]: "errors403 (snd (update_loop env w tys a u)) = errors403 w"
  by (induction tys arbitrary: w) (simp_all add: Let_def split: option.splits)




lemma update_loop_unchanged:
  assumes "\<And>d. write_hash env u d = (False, d)"
  shows "update_loop env w tys a u = (False, w)"
  by (induction tys arbitrary: w) (simp_all add: assms Let_def fun_upd_idem split: option.splits)


lemma getAccountData_loop_cong:
  "(\<forall>ty \<in> set tys. registry w' (accountKey ty a) = registry w (accountKey ty a)) \<Longrightarrow>
   getAccountData_loop env w' tys a = getAccountData_loop env w tys a"
  by (induction tys) (simp_all split: option.splits)

lemma getAccountData_errors403 [simp]:
  "getAccountData env (w\<lparr>errors403 := e\<rparr>) a = getAccountData env w a"
  unfolding getAccountData_def by (rule getAccountData_loop_cong) simp

text \<open>What \<open>_updateAccountBreakerState\<close> does: to the error windows, when the account
  is not found, to the record that is found, when no command throws, when the \<open>hmset\<close> of
  an update without deletions throws, and to other accounts.\<close>

lemma update_errors [simp]:
  "errors403 (snd (updateAccountBreakerState env w a u)) = errors403 w"
  by (simp add: updateAccountBreakerState_def split: option.splits)

lemma update_not_found:
  "getAccountData env w a = None \<Longrightarrow> updateAccountBreakerState env w a u = (False, w)"
  by (simp add: updateAccountBreakerState_def)



lemma update_hmset_fails:
  "\<not> has_deletes u \<Longrightarrow> has_values u \<Longrightarrow> hmset_fails env \<Longrightarrow>
   updateAccountBreakerState env w a u = (False, w)"
  by (simp add: updateAccountBreakerState_def update_loop_unchanged write_hash_hmset_fails
      split: option.splits)


text \<open>The three updates that the breaker sends.\<close>

lemma open_update [simp]:
  "\<not> has_deletes \<lparr>upd_State = Value s, upd_OpenAt = Value x, upd_OpenUntil = Value y\<rparr>"
  "has_values \<lparr>upd_State = Value s, upd_OpenAt = Value x, upd_OpenUntil = Value y\<rparr>"
  by (simp_all add: has_deletes_def has_values_def is_null_def is_value_def)

lemma half_open_update [simp]:
  "\<not> has_deletes \<lparr>upd_State = Value s, upd_OpenAt = Absent, upd_OpenUntil = Absent\<rparr>"
  "has_values \<lparr>upd_State = Value s, upd_OpenAt = Absent, upd_OpenUntil = Absent\<rparr>"
  by (simp_all add: has_deletes_def has_values_def is_null_def is_value_def)

lemma close_update [simp]:
  "has_deletes \<lparr>upd_State = Value s, upd_OpenAt = Null, upd_OpenUntil = Null\<rparr>"
  "has_values \<lparr>upd_State = Value s, upd_OpenAt = Null, upd_OpenUntil = Null\<rparr>"
  by (simp_all add: has_deletes_def has_values_def is_null_def is_value_def)

lemma openCircuitBreaker_errors [simp]:
  "errors403 (snd (openCircuitBreaker env w a cfg t)) = errors403 w"
  by (simp add: openCircuitBreaker_def Let_def)



lemma openCircuitBreaker_unpersisted:
  "getAccountData env w a = None \<or> hmset_fails env \<Longrightarrow>
   openCircuitBreaker env w a cfg t = (True, w)"
  by (auto simp: openCircuitBreaker_def Let_def update_not_found update_hmset_fails)

text \<open>The two ways out of \<open>record403Error\<close> once the feature is enabled and the window
  has answered.\<close>

lemma record403Error_enabled:
  fixes t :: int
  assumes "cb_enabled (getAccountConfig env w g a)" and "\<not> window_fails env"
    and "cfg = getAccountConfig env w g a"
    and "ts = filter (in_window t (cb_windowSeconds cfg)) (window_of w a) @ [t]"
    and "w1 = w\<lparr>errors403 := (errors403 w)(a \<mapsto> ts)\<rparr>"
  shows "record403Error env w g a t =
     (if int (length ts) \<ge> threshold cfg
      then Some (\<lparr>triggered = True, errorCount = int (length ts), res_threshold = threshold cfg,
                  state = ''open''\<rparr>, snd (openCircuitBreaker env w1 a cfg t))
      else Some (\<lparr>triggered = False, errorCount = int (length ts), res_threshold = threshold cfg,
                  state = ''closed''\<rparr>, w1))"
  using assms(1,2) unfolding assms(3,4,5)
  by (simp add: record403Error_def redis_record403Error_def Let_def)

subsection \<open>The example registry\<close>

lemma getAccountData_A [simp]:
  "getAccountData breaker_up (two_accounts dataA errs) ''A'' = Some dataA"
  by (simp add: getAccountData_def accountTypes_def accountKey_def breaker_up_def two_accounts_def)

lemma getAccountData_B [simp]:
  "getAccountData breaker_up (two_accounts dataA errs) ''B'' = Some plain_account"
  by (simp add: getAccountData_def accountTypes_def accountKey_def breaker_up_def two_accounts_def)

lemma getAccountData_C [simp]:
  "getAccountData breaker_up (two_accounts dataA errs) ''C'' = None"
  by (simp add: getAccountData_def accountTypes_def accountKey_def breaker_up_def two_accounts_def)

lemma breaker_up_simps [simp]: "\<not> window_fails breaker_up" "\<not> hdel_fails breaker_up"
  "\<not> hmset_fails breaker_up" "\<not> hash_read_fails breaker_up"
  by (simp_all add: breaker_up_def)

lemma hmset_down_simps [simp]: "\<not> window_fails hmset_down" "\<not> hdel_fails hmset_down"
  "hmset_fails hmset_down" "\<not> hash_read_fails hmset_down"
  by (simp_all add: hmset_down_def)

lemma write_hash_up [simp]: "write_hash breaker_up u d = (True, write_fields u d)"
  by (rule write_hash_ok) simp_all

lemma write_hash_down [simp]:
  "has_values u \<Longrightarrow> write_hash hmset_down u d = (False, delete_fields u d)"
  by (simp add: write_hash_def Let_def)


lemma getAccountData_A_down [simp]:
  "getAccountData hmset_down (two_accounts dataA errs) ''A'' = Some dataA"
  by (simp add: getAccountData_def accountTypes_def accountKey_def two_accounts_def)


lemma cfg_A [simp]: "getAccountConfig breaker_up (two_accounts plain_account errs) g ''A'' = g"
  by (simp add: getAccountConfig_def plain_account_def)

lemma cfg_A_down [simp]: "getAccountConfig hmset_down (two_accounts plain_account errs) g ''A'' = g"
  by (simp add: getAccountConfig_def plain_account_def)

lemma enabled_cfg_breaker [simp]: "cb_enabled cfg_breaker" "threshold cfg_breaker = 3"
  "cb_windowSeconds cfg_breaker = 300" "breakerDurationMinutes cfg_breaker = 30"
  by (simp_all add: cfg_breaker_def)

lemma two_accounts_simps [simp]:
  "errors403 (two_accounts dataA errs) = errs"
  "(two_accounts dataA errs)\<lparr>errors403 := errs'\<rparr> = two_accounts dataA errs'"
  by (simp_all add: two_accounts_def)








subsection \<open>Recording an error\<close>





subsection \<open>Recovery after the cooldown\<close>

lemma halfOpenCircuitBreaker_errors [simp]:
  "errors403 (snd (halfOpenCircuitBreaker env w a)) = errors403 w"
  by (simp add: halfOpenCircuitBreaker_def Let_def)



lemma checkAndRecoverBreaker_errors [simp]:
  "errors403 (snd (checkAndRecoverBreaker env w a t)) = errors403 w"
  by (simp add: checkAndRecoverBreaker_def Let_def split: option.splits)




subsection \<open>Closing the breaker\<close>












subsection \<open>The window of the status\<close>

lemma getAccountConfig_window:
  "getAccountConfig env w (g\<lparr>cb_windowSeconds := ws\<rparr>) a =
     (getAccountConfig env w g a)\<lparr>cb_windowSeconds := ws\<rparr>"
  by (simp add: getAccountConfig_def split: option.splits)

text \<open>
  C9. \<open>getBreakerStatus\<close> counts the errors of the last 300 seconds, whatever
  \<open>windowSeconds\<close> is configured: the status does not depend on the configured window,
  while the count that \<open>record403Error\<close> compares with the threshold is taken over the
  configured window. For every configured window other than 300 there is an error window
  (one failure, \<open>min windowSeconds 300\<close> seconds old) on which the count over the
  configured window and the count the status reports differ.
\<close>

theorem getBreakerStatus_fixed_window:
  "(\<not> window_fails env \<longrightarrow>
      st_errorCount (getBreakerStatus env w globalConfig accountId t) =
        int (length (filter (in_window t 300) (window_of w accountId))))
   \<and> getBreakerStatus env w (globalConfig\<lparr>cb_windowSeconds := ws\<rparr>) accountId t =
       getBreakerStatus env w globalConfig accountId t
   \<and> (cb_enabled (getAccountConfig env w globalConfig accountId) \<and>
      record403Error env w globalConfig accountId t = Some (r, w') \<longrightarrow>
        errorCount r =
          int (length (filter (in_window t (cb_windowSeconds globalConfig)) (window_of w accountId))) + 1)
   \<and> (\<not> window_fails env \<and> ws \<noteq> 300 \<longrightarrow>
        redis_get403ErrorCount env
            (w\<lparr>errors403 := (errors403 w)(accountId \<mapsto> [t - 1000 * min ws 300])\<rparr>) accountId ws t
          \<noteq> Some (st_errorCount (getBreakerStatus env
                (w\<lparr>errors403 := (errors403 w)(accountId \<mapsto> [t - 1000 * min ws 300])\<rparr>)
                (globalConfig\<lparr>cb_windowSeconds := ws\<rparr>) accountId t)))"
proof (intro conjI impI)
  assume "\<not> window_fails env"
  then show "st_errorCount (getBreakerStatus env w globalConfig accountId t) =
      int (length (filter (in_window t 300) (window_of w accountId)))"
    by (simp add: getBreakerStatus_def redis_get403ErrorCount_def Let_def split: option.splits)
next
  show "getBreakerStatus env w (globalConfig\<lparr>cb_windowSeconds := ws\<rparr>) accountId t =
       getBreakerStatus env w globalConfig accountId t"
    by (simp add: getBreakerStatus_def getAccountConfig_window Let_def split: option.splits)
next
  assume h: "cb_enabled (getAccountConfig env w globalConfig accountId) \<and>
      record403Error env w globalConfig accountId t = Some (r, w')"
  have ws: "cb_windowSeconds (getAccountConfig env w globalConfig accountId) = cb_windowSeconds globalConfig"
    by (simp add: getAccountConfig_def split: option.splits)
  have up: "\<not> window_fails env"
    using h by (auto simp: record403Error_def redis_record403Error_def Let_def split: if_splits)
  show "errorCount r =
      int (length (filter (in_window t (cb_windowSeconds globalConfig)) (window_of w accountId))) + 1"
    using h up record403Error_enabled [OF _ up refl refl refl, of w globalConfig accountId t]
    by (auto simp: ws split: if_splits)
next
  assume h: "\<not> window_fails env \<and> ws \<noteq> 300"
  let ?w1 = "w\<lparr>errors403 := (errors403 w)(accountId \<mapsto> [t - 1000 * min ws 300])\<rparr>"
  have win: "window_of ?w1 accountId = [t - 1000 * min ws 300]"
    by (simp add: window_of_def)
  have st: "st_errorCount (getBreakerStatus env ?w1 (globalConfig\<lparr>cb_windowSeconds := ws\<rparr>) accountId t)
      = (if ws < 300 then 1 else 0)"
    using h
    by (auto simp add: getBreakerStatus_def redis_get403ErrorCount_def win in_window_def Let_def
        split: option.splits)
  have cnt: "redis_get403ErrorCount env ?w1 accountId ws t = Some (if 300 < ws then 1 else 0)"
    using h by (simp add: redis_get403ErrorCount_def win in_window_def)
  show "redis_get403ErrorCount env ?w1 accountId ws t
      \<noteq> Some (st_errorCount (getBreakerStatus env ?w1 (globalConfig\<lparr>cb_windowSeconds := ws\<rparr>) accountId t))"
    unfolding st cnt using h by auto
qed

theorem getBreakerStatus_fixed_window_witness:
  "st_errorCount (getBreakerStatus breaker_up
       (two_accounts plain_account [''A'' \<mapsto> [100000, 500000]])
       (cfg_breaker\<lparr>cb_windowSeconds := 600\<rparr>) ''A'' 500000) = 1
   \<and> record403Error breaker_up (two_accounts plain_account [''A'' \<mapsto> [100000]])
       (cfg_breaker\<lparr>cb_windowSeconds := 600\<rparr>) ''A'' 500000
     = Some (\<lparr>triggered = False, errorCount = 2, res_threshold = 3, state = ''closed''\<rparr>,
             two_accounts plain_account [''A'' \<mapsto> [100000, 500000]])
   \<and> redis_get403ErrorCount breaker_up (two_accounts plain_account [''A'' \<mapsto> [200000]]) ''A'' 600 500000
     = Some 1
   \<and> st_errorCount (getBreakerStatus breaker_up (two_accounts plain_account [''A'' \<mapsto> [200000]])
       (cfg_breaker\<lparr>cb_windowSeconds := 600\<rparr>) ''A'' 500000) = 0
   \<and> redis_get403ErrorCount breaker_up (two_accounts plain_account [''A'' \<mapsto> [200000]]) ''A'' 600 500000
     \<noteq> Some (st_errorCount (getBreakerStatus breaker_up (two_accounts plain_account [''A'' \<mapsto> [200000]])
         (cfg_breaker\<lparr>cb_windowSeconds := 600\<rparr>) ''A'' 500000))
   \<and> getBreakerStatus breaker_up (two_accounts plain_account [''A'' \<mapsto> [200000]])
       (cfg_breaker\<lparr>cb_windowSeconds := 600\<rparr>) ''A'' 500000
     = getBreakerStatus breaker_up (two_accounts plain_account [''A'' \<mapsto> [200000]]) cfg_breaker ''A'' 500000"
proof -
  note t = getBreakerStatus_fixed_window [where env = breaker_up and accountId = "''A''" and t = 500000]
  have a: "st_errorCount (getBreakerStatus breaker_up
       (two_accounts plain_account [''A'' \<mapsto> [100000, 500000]])
       (cfg_breaker\<lparr>cb_windowSeconds := 600\<rparr>) ''A'' 500000) = 1"
    using t [where w = "two_accounts plain_account [''A'' \<mapsto> [100000, 500000]]"
        and globalConfig = "cfg_breaker\<lparr>cb_windowSeconds := 600\<rparr>"]
    by (simp add: window_of_def in_window_def)
  have b: "record403Error breaker_up (two_accounts plain_account [''A'' \<mapsto> [100000]])
       (cfg_breaker\<lparr>cb_windowSeconds := 600\<rparr>) ''A'' 500000
     = Some (\<lparr>triggered = False, errorCount = 2, res_threshold = 3, state = ''closed''\<rparr>,
             two_accounts plain_account [''A'' \<mapsto> [100000, 500000]])"
    by (simp add: record403Error_enabled [OF _ _ refl refl refl] window_of_def in_window_def)
  have c: "redis_get403ErrorCount breaker_up (two_accounts plain_account [''A'' \<mapsto> [200000]]) ''A'' 600 500000
     = Some 1"
    by (simp add: redis_get403ErrorCount_def window_of_def in_window_def)
  have d: "st_errorCount (getBreakerStatus breaker_up (two_accounts plain_account [''A'' \<mapsto> [200000]])
       (cfg_breaker\<lparr>cb_windowSeconds := 600\<rparr>) ''A'' 500000) = 0"
    using t [where w = "two_accounts plain_account [''A'' \<mapsto> [200000]]"
        and globalConfig = "cfg_breaker\<lparr>cb_windowSeconds := 600\<rparr>" and ws = 600]
    by (simp add: window_of_def in_window_def)
  have e: "redis_get403ErrorCount breaker_up (two_accounts plain_account [''A'' \<mapsto> [200000]]) ''A'' 600 500000
     \<noteq> Some (st_errorCount (getBreakerStatus breaker_up (two_accounts plain_account [''A'' \<mapsto> [200000]])
         (cfg_breaker\<lparr>cb_windowSeconds := 600\<rparr>) ''A'' 500000))"
    using t [where w = "two_accounts plain_account Map.empty"
        and globalConfig = cfg_breaker and ws = 600]
    by simp
  have f: "getBreakerStatus breaker_up (two_accounts plain_account [''A'' \<mapsto> [200000]])
       (cfg_breaker\<lparr>cb_windowSeconds := 600\<rparr>) ''A'' 500000
     = getBreakerStatus breaker_up (two_accounts plain_account [''A'' \<mapsto> [200000]]) cfg_breaker ''A'' 500000"
    using t [where w = "two_accounts plain_account [''A'' \<mapsto> [200000]]"
        and globalConfig = cfg_breaker and ws = 600]
    by simp
  have g: "errorCount \<lparr>triggered = False, errorCount = 2, res_threshold = 3, state = ''closed''\<rparr> = 1 + 1"
    using t [where w = "two_accounts plain_account [''A'' \<mapsto> [100000]]"
        and globalConfig = "cfg_breaker\<lparr>cb_windowSeconds := 600\<rparr>"
        and r = "\<lparr>triggered = False, errorCount = 2, res_threshold = 3, state = ''closed''\<rparr>"
        and w' = "two_accounts plain_account [''A'' \<mapsto> [100000, 500000]]"] b
    by simp
  show ?thesis using a b c d e f g by simp
qed

subsection \<open>An open state that was not stored\<close>

text \<open>
  C10. When the count reaches the threshold and the open state cannot be stored (no
  record of the account under any account type, or the registry's \<open>hmset\<close> throws),
  \<open>record403Error\<close> still returns \<open>triggered = true\<close>, \<open>state = 'open'\<close>; the registry is as
  it was, only the error window has the new timestamp, and the update has returned
  false.
\<close>

theorem record403Error_ignores_open_failure:
  "cb_enabled (getAccountConfig env w globalConfig accountId) \<and> \<not> window_fails env \<and>
   int (length (filter (in_window t (cb_windowSeconds globalConfig)) (window_of w accountId))) + 1
     \<ge> threshold (getAccountConfig env w globalConfig accountId) \<and>
   (getAccountData env w accountId = None \<or> hmset_fails env) \<longrightarrow>
     record403Error env w globalConfig accountId t =
       Some (\<lparr>triggered = True,
              errorCount = int (length (filter (in_window t (cb_windowSeconds globalConfig))
                                  (window_of w accountId))) + 1,
              res_threshold = threshold (getAccountConfig env w globalConfig accountId),
              state = ''open''\<rparr>,
             w\<lparr>errors403 := (errors403 w)(accountId \<mapsto>
                  filter (in_window t (cb_windowSeconds globalConfig)) (window_of w accountId) @ [t])\<rparr>)
     \<and> registry (snd (the (record403Error env w globalConfig accountId t))) = registry w
     \<and> fst (updateAccountBreakerState env w accountId
              \<lparr>upd_State = Value ''open'', upd_OpenAt = Value t,
               upd_OpenUntil = Value (t + breakerDurationMinutes
                 (getAccountConfig env w globalConfig accountId) * 60 * 1000)\<rparr>) = False"
proof (intro impI)
  assume h: "cb_enabled (getAccountConfig env w globalConfig accountId) \<and> \<not> window_fails env \<and>
   int (length (filter (in_window t (cb_windowSeconds globalConfig)) (window_of w accountId))) + 1
     \<ge> threshold (getAccountConfig env w globalConfig accountId) \<and>
   (getAccountData env w accountId = None \<or> hmset_fails env)"
  define cfg where "cfg = getAccountConfig env w globalConfig accountId"
  define ts where "ts = filter (in_window t (cb_windowSeconds globalConfig)) (window_of w accountId) @ [t]"
  define w1 where "w1 = w\<lparr>errors403 := (errors403 w)(accountId \<mapsto> ts)\<rparr>"
  have ws: "cb_windowSeconds (getAccountConfig env w globalConfig accountId) = cb_windowSeconds globalConfig"
    by (simp add: getAccountConfig_def split: option.splits)
  have lost: "getAccountData env w1 accountId = None \<or> hmset_fails env"
    using h by (simp add: w1_def)
  then have op: "openCircuitBreaker env w1 accountId cfg t = (True, w1)"
    by (rule openCircuitBreaker_unpersisted)
  have run: "record403Error env w globalConfig accountId t =
      Some (\<lparr>triggered = True, errorCount = int (length ts), res_threshold = threshold cfg,
             state = ''open''\<rparr>, w1)"
    using h record403Error_enabled [of env w globalConfig accountId cfg ts t w1] op
    by (simp add: cfg_def ws ts_def w1_def)
  have upd: "fst (updateAccountBreakerState env w accountId
              \<lparr>upd_State = Value ''open'', upd_OpenAt = Value t,
               upd_OpenUntil = Value (t + breakerDurationMinutes cfg * 60 * 1000)\<rparr>) = False"
    using h by (auto simp: update_not_found update_hmset_fails)
  show "record403Error env w globalConfig accountId t =
       Some (\<lparr>triggered = True,
              errorCount = int (length (filter (in_window t (cb_windowSeconds globalConfig))
                                  (window_of w accountId))) + 1,
              res_threshold = threshold (getAccountConfig env w globalConfig accountId),
              state = ''open''\<rparr>,
             w\<lparr>errors403 := (errors403 w)(accountId \<mapsto>
                  filter (in_window t (cb_windowSeconds globalConfig)) (window_of w accountId) @ [t])\<rparr>)
     \<and> registry (snd (the (record403Error env w globalConfig accountId t))) = registry w
     \<and> fst (updateAccountBreakerState env w accountId
              \<lparr>upd_State = Value ''open'', upd_OpenAt = Value t,
               upd_OpenUntil = Value (t + breakerDurationMinutes
                 (getAccountConfig env w globalConfig accountId) * 60 * 1000)\<rparr>) = False"
    using run upd by (simp add: cfg_def ts_def w1_def)
qed

theorem record403Error_ignores_open_failure_witness:
  "record403Error breaker_up (two_accounts plain_account [''C'' \<mapsto> [1000, 2000]]) cfg_breaker ''C'' 3000
     = Some (\<lparr>triggered = True, errorCount = 3, res_threshold = 3, state = ''open''\<rparr>,
             two_accounts plain_account [''C'' \<mapsto> [1000, 2000, 3000]])
   \<and> getAccountData breaker_up (two_accounts plain_account [''C'' \<mapsto> [1000, 2000, 3000]]) ''C'' = None
   \<and> record403Error writes_fail
        (two_accounts plain_account [''A'' \<mapsto> [1000, 2000]]) cfg_breaker ''A'' 3000
     = Some (\<lparr>triggered = True, errorCount = 3, res_threshold = 3, state = ''open''\<rparr>,
             two_accounts plain_account [''A'' \<mapsto> [1000, 2000, 3000]])"
proof -
  have cfgC: "getAccountConfig breaker_up (two_accounts plain_account errs) cfg_breaker ''C'' = cfg_breaker"
    for errs by (simp add: getAccountConfig_def)
  have dataA: "getAccountData writes_fail (two_accounts plain_account errs) ''A''
      = Some plain_account" for errs
    by (simp add: getAccountData_def accountTypes_def accountKey_def writes_fail_def two_accounts_def)
  have cfgA: "getAccountConfig writes_fail (two_accounts plain_account errs)
      cfg_breaker ''A'' = cfg_breaker" for errs
    by (simp add: getAccountConfig_def dataA) (simp add: plain_account_def)
  have a: "record403Error breaker_up (two_accounts plain_account [''C'' \<mapsto> [1000, 2000]]) cfg_breaker ''C'' 3000
     = Some (\<lparr>triggered = True, errorCount = 3, res_threshold = 3, state = ''open''\<rparr>,
             two_accounts plain_account [''C'' \<mapsto> [1000, 2000, 3000]])"
    using record403Error_ignores_open_failure [where env = breaker_up
        and w = "two_accounts plain_account [''C'' \<mapsto> [1000, 2000]]" and globalConfig = cfg_breaker
        and accountId = "''C''" and t = 3000]
    by (simp add: cfgC window_of_def in_window_def)
  have b: "record403Error writes_fail
        (two_accounts plain_account [''A'' \<mapsto> [1000, 2000]]) cfg_breaker ''A'' 3000
     = Some (\<lparr>triggered = True, errorCount = 3, res_threshold = 3, state = ''open''\<rparr>,
             two_accounts plain_account [''A'' \<mapsto> [1000, 2000, 3000]])"
    using record403Error_ignores_open_failure [where env = writes_fail
        and w = "two_accounts plain_account [''A'' \<mapsto> [1000, 2000]]" and globalConfig = cfg_breaker
        and accountId = "''A''" and t = 3000]
    by (simp add: cfgA window_of_def in_window_def) (simp add: writes_fail_def)
  show ?thesis using a b by simp
qed

end
